theory Spec2Isabelle
  imports Complex_Main "HOL-Library.Word" "HOL-Library.Code_Target_Numeral"
begin

section \<open>C and C++ library behaviour the firmware relies on\<close>

text \<open>
  Byte strings are HOL strings: a \<open>char\<close> is one byte, the NUL byte included. A
  \<open>char[]\<close> buffer that the code hands to \<open>std::string\<close> or compares with one is read
  as a C string: its bytes up to the first NUL.
\<close>

definition NUL :: char where
  "NUL = CHR 0x00"

definition c_str :: "string \<Rightarrow> string" where
  "c_str buf = takeWhile (\<lambda>c. c \<noteq> NUL) buf"

text \<open>
  A \<open>double\<close> (and a \<open>float\<close> parameter of \<open>packData\<close>) is modelled by the number it
  denotes: \<open>Finite q\<close> is the finite value that denotes the real number \<open>q\<close>; the two
  zeros are the one value \<open>Finite 0\<close>; infinities and NaN are values of their own. The
  comparison \<open>v != 0\<close> of the code is \<open>v \<noteq> Finite 0\<close>: it is true of NaN and of the
  infinities, as in IEEE arithmetic. The numbers that a conversion from text yields are
  those of the binary64 format (\<open>binary64\<close> below).
\<close>

datatype double = Finite real | PlusInf | MinusInf | NaN

datatype exn = invalid_argument | out_of_range

definition isspace :: "char \<Rightarrow> bool" where
  "isspace c = (c \<in> set [CHR '' '', CHR 0x09, CHR 0x0A, CHR 0x0B, CHR 0x0C, CHR 0x0D])"

definition isdigit :: "char \<Rightarrow> bool" where
  "isdigit c = (c \<in> set ''0123456789'')"

definition isxdigit :: "char \<Rightarrow> bool" where
  "isxdigit c = (c \<in> set ''0123456789abcdefABCDEF'')"

definition tolower :: "char \<Rightarrow> char" where
  "tolower c =
     (case map_of (zip ''ABCDEFGHIJKLMNOPQRSTUVWXYZ'' ''abcdefghijklmnopqrstuvwxyz'') c of
        Some l \<Rightarrow> l
      | None \<Rightarrow> c)"

definition digit_val :: "char \<Rightarrow> nat" where
  "digit_val c =
     (if isdigit c then of_char c - 48
      else if c \<in> set ''abcdef'' then of_char c - 87
      else of_char c - 55)"

definition digits_val :: "nat \<Rightarrow> string \<Rightarrow> nat" where
  "digits_val base ds = foldl (\<lambda>n c. base * n + digit_val c) 0 ds"

text \<open>\<open>starts_with_ci p s\<close>: \<open>s\<close> begins with the lower-case pattern \<open>p\<close>, ignoring case.\<close>

definition starts_with_ci :: "string \<Rightarrow> string \<Rightarrow> bool" where
  "starts_with_ci p s = (map tolower (take (length p) s) = p)"

definition scale :: "real \<Rightarrow> int \<Rightarrow> real \<Rightarrow> real" where
  "scale b e q = (if 0 \<le> e then q * b ^ nat e else q / b ^ nat (- e))"

text \<open>
  The exponent part of a floating literal: one of the marker characters, an optional sign
  and a non-empty run of decimal digits; anything else is not an exponent and counts 0.
\<close>

definition exponent_part :: "string \<Rightarrow> string \<Rightarrow> int" where
  "exponent_part markers r =
     (if r \<noteq> [] \<and> hd r \<in> set markers then
        (let t = tl r;
             neg = (t \<noteq> [] \<and> hd t = CHR ''-'');
             u = (if t \<noteq> [] \<and> hd t \<in> set ''+-'' then tl t else t);
             ds = takeWhile isdigit u
         in if ds = [] then 0
            else if neg then - int (digits_val 10 ds) else int (digits_val 10 ds))
      else 0)"

text \<open>
  The digit sequence of a literal in the given base: digits with an optional radix point
  and at least one digit in all, then the optional exponent.
\<close>

definition mantissa_exp ::
  "(char \<Rightarrow> bool) \<Rightarrow> nat \<Rightarrow> string \<Rightarrow> real \<Rightarrow> string \<Rightarrow> real option" where
  "mantissa_exp isdig base markers ebase s =
     (let ip = takeWhile isdig s;
          r1 = dropWhile isdig s;
          dot = (r1 \<noteq> [] \<and> hd r1 = CHR ''.'');
          fp = (if dot then takeWhile isdig (tl r1) else []);
          r2 = (if dot then dropWhile isdig (tl r1) else r1)
      in if ip = [] \<and> fp = [] then None
         else Some (scale ebase (exponent_part markers r2)
                      (of_nat (digits_val base (ip @ fp)) / of_nat base ^ length fp)))"

definition hex_float :: "string \<Rightarrow> real option" where
  "hex_float s =
     (if starts_with_ci ''0x'' s then mantissa_exp isxdigit 16 ''pP'' 2 (drop 2 s) else None)"

definition dec_float :: "string \<Rightarrow> real option" where
  "dec_float s = mantissa_exp isdigit 10 ''eE'' 10 s"

text \<open>The integer nearest to \<open>x\<close>, the even one of the two when \<open>x\<close> is half way.\<close>

definition round_half_even :: "real \<Rightarrow> int" where
  "round_half_even x =
     (let f = \<lfloor>x\<rfloor>; d = x - of_int f
      in if d < 1 / 2 then f else if 1 / 2 < d then f + 1 else if even f then f else f + 1)"

text \<open>The number of binary digits of an integer (1 for 0 and 1).\<close>

function bin_digits :: "int \<Rightarrow> nat" where
  "bin_digits n = (if n < 2 then 1 else Suc (bin_digits (n div 2)))"
  by pat_completeness auto
termination
  by (relation "measure (\<lambda>n. nat n)") auto

declare bin_digits.simps [simp del]

text \<open>The binary exponent of a positive number \<open>a\<close>: the \<open>e\<close> with \<open>2^e \<le> a < 2^(e+1)\<close>.\<close>

definition floor_log2 :: "real \<Rightarrow> int" where
  "floor_log2 a =
     (if 1 \<le> a then int (bin_digits \<lfloor>a\<rfloor>) - 1
      else - int (bin_digits (\<lceil>1 / a\<rceil> - 1)))"

text \<open>
  Rounding to the binary64 format, to nearest and ties to even, the exponent unbounded
  above: a number of binary exponent \<open>e\<close> is rounded to a multiple of \<open>2^(e-52)\<close> (53
  significant bits), and below the normal range, where \<open>e < -1022\<close>, to a multiple of
  \<open>2^(-1074)\<close>.
\<close>

definition binary64 :: "real \<Rightarrow> real" where
  "binary64 x =
     (if x = 0 then 0
      else
        (let e = max (floor_log2 \<bar>x\<bar>) (- 1022);
             ulp = scale 2 (e - 52) 1;
             n = round_half_even (\<bar>x\<bar> / ulp)
         in (if x < 0 then - 1 else 1) * of_int n * ulp))"

text \<open>
  What \<open>std::stod\<close> makes of the number \<open>x\<close> that the text denotes: \<open>strtod\<close> rounds it
  to the binary64 format, and \<open>std::stod\<close> throws \<open>std::out_of_range\<close> when \<open>strtod\<close>
  reports a range error (\<open>errno\<close> is \<open>ERANGE\<close>). That is the case when the rounded
  magnitude is \<open>2^1024\<close> or more (overflow), and when the rounded number is smaller in
  magnitude than the least normal number \<open>2^(-1022)\<close> and is not the number read
  (underflow: a subnormal or zero result that is not exact; C leaves it to the
  implementation whether an underflow is reported, and it is taken as reported when the
  result is not exact).
\<close>

definition strtod_result :: "real \<Rightarrow> exn + double" where
  "strtod_result x =
     (let r = binary64 x
      in if 2 ^ 1024 \<le> \<bar>r\<bar> \<or> (\<bar>r\<bar> < 1 / 2 ^ 1022 \<and> r \<noteq> x) then Inl out_of_range
         else Inr (Finite r))"

text \<open>
  \<open>std::stod(str)\<close> with no position argument: \<open>strtod\<close> on the text, what follows the
  number ignored. White space is skipped, then an optional sign, then \<open>inf\<close>, \<open>nan\<close>, a
  hexadecimal or a decimal floating literal; \<open>std::invalid_argument\<close> when there is
  none of them, so that no conversion can be performed.
\<close>

definition std_stod :: "string \<Rightarrow> exn + double" where
  "std_stod str =
     (let s = dropWhile isspace str;
          neg = (s \<noteq> [] \<and> hd s = CHR ''-'');
          body = (if s \<noteq> [] \<and> hd s \<in> set ''+-'' then tl s else s);
          sgn = (\<lambda>q. if neg then - q else q)
      in if starts_with_ci ''inf'' body then Inr (if neg then MinusInf else PlusInf)
         else if starts_with_ci ''nan'' body then Inr NaN
         else (case hex_float body of
                 Some q \<Rightarrow> strtod_result (sgn q)
               | None \<Rightarrow>
                  (case dec_float body of
                     Some q \<Rightarrow> strtod_result (sgn q)
                   | None \<Rightarrow> Inl invalid_argument)))"

text \<open>
  \<open>s.find_first_of(chars)\<close>: the first position of \<open>s\<close> holding one of the characters,
  \<open>None\<close> for \<open>npos\<close>.
\<close>

definition find_first_of :: "string \<Rightarrow> string \<Rightarrow> nat option" where
  "find_first_of s chars =
     (let n = length (takeWhile (\<lambda>c. c \<notin> set chars) s)
      in if n < length s then Some n else None)"

text \<open>
  The items that repeated \<open>getline(ss, item, delim)\<close> yields until it fails: the text
  between delimiters; a read that meets the end of the text at once extracts nothing and
  fails, so neither the empty text nor a final delimiter gives an empty last item.
  \<open>cur\<close> holds the characters of the item being read, last first.
\<close>

fun getline_items :: "char \<Rightarrow> string \<Rightarrow> string \<Rightarrow> string list" where
  "getline_items delim [] cur = (if cur = [] then [] else [rev cur])"
| "getline_items delim (c # cs) cur =
     (if c = delim then rev cur # getline_items delim cs []
      else getline_items delim cs (c # cur))"

section \<open>Command framing: \<open>extractValuesAndIds\<close>\<close>

text \<open>
  The loop body of \<open>extractValuesAndIds\<close> on the items still to read. For an item with no
  character of \<open>0123456789.-\<close>, \<open>find_first_of\<close> is \<open>npos\<close>: the identifier is the whole
  item and \<open>item.substr(npos)\<close> throws \<open>std::out_of_range\<close>. An exception leaves the
  function (and, uncaught, the handler). The library function \<open>std::stod\<close> that the loop
  calls is the parameter \<open>stod\<close>: what is proved for every \<open>stod\<close> holds whatever the
  library does on a text, and \<open>std_stod\<close> above is the function to run it with.
\<close>

fun extract_loop ::
  "(string \<Rightarrow> exn + double) \<Rightarrow> string list \<Rightarrow> string list \<Rightarrow> double list \<Rightarrow>
   exn + (string list \<times> double list)" where
  "extract_loop stod [] ids vals = Inr (ids, vals)"
| "extract_loop stod (item # rest) ids vals =
     (case find_first_of item ''0123456789.-'' of
        None \<Rightarrow> Inl out_of_range
      | Some pos \<Rightarrow>
         (case stod (drop pos item) of
            Inl e \<Rightarrow> Inl e
          | Inr v \<Rightarrow> extract_loop stod rest (ids @ [take pos item]) (vals @ [v])))"

definition extractValuesAndIds ::
  "(string \<Rightarrow> exn + double) \<Rightarrow> string \<Rightarrow> string list \<Rightarrow> double list \<Rightarrow>
   exn + (string list \<times> double list)" where
  "extractValuesAndIds stod data ids vals =
     extract_loop stod (getline_items CHR ''_'' data []) ids vals"

section \<open>The register store\<close>

text \<open>
  Modelled from the spec: the class \<open>SharedMemory\<close> (\<open>_ptam.h\<close>) is not among the
  sources; only its callers are. Section 3 and 4.1 of the specification: each value kind
  is stored in its own keyed mapping; \<open>set\<close> inserts or overwrites; \<open>clear\<close> removes
  the key if present and is a no-op if absent; \<open>get\<close> returns the most recently set value
  of the key in that kind, or the sentinel (zero, the empty string) if absent. The kinds
  are those of the accessors that the sources call (\<open>storeDouble\<close>, \<open>getLastDouble\<close>,
  \<open>getLastInt\<close>, \<open>storeString\<close>, \<open>getLastString\<close>), with \<open>storeInt\<close> as the
  setter of the integer kind. \<open>clearData\<close> is given the key alone, so it removes the
  key from the mapping of every kind.
\<close>

record shared_memory =
  doubleData :: "string \<rightharpoonup> double"
  intData :: "string \<rightharpoonup> int"
  stringData :: "string \<rightharpoonup> string"

definition storeDouble :: "string \<Rightarrow> double \<Rightarrow> shared_memory \<Rightarrow> shared_memory" where
  "storeDouble key v m = m\<lparr>doubleData := (doubleData m)(key \<mapsto> v)\<rparr>"

definition storeInt :: "string \<Rightarrow> int \<Rightarrow> shared_memory \<Rightarrow> shared_memory" where
  "storeInt key v m = m\<lparr>intData := (intData m)(key \<mapsto> v)\<rparr>"

definition storeString :: "string \<Rightarrow> string \<Rightarrow> shared_memory \<Rightarrow> shared_memory" where
  "storeString key v m = m\<lparr>stringData := (stringData m)(key \<mapsto> v)\<rparr>"

definition clearData :: "string \<Rightarrow> shared_memory \<Rightarrow> shared_memory" where
  "clearData key m =
     m\<lparr>doubleData := (doubleData m)(key := None),
       intData := (intData m)(key := None),
       stringData := (stringData m)(key := None)\<rparr>"

definition getLastDouble :: "string \<Rightarrow> shared_memory \<Rightarrow> double" where
  "getLastDouble key m = (case doubleData m key of None \<Rightarrow> Finite 0 | Some v \<Rightarrow> v)"

definition getLastInt :: "string \<Rightarrow> shared_memory \<Rightarrow> int" where
  "getLastInt key m = (case intData m key of None \<Rightarrow> 0 | Some v \<Rightarrow> v)"

definition getLastString :: "string \<Rightarrow> shared_memory \<Rightarrow> string" where
  "getLastString key m = (case stringData m key of None \<Rightarrow> [] | Some v \<Rightarrow> v)"

text \<open>The content of one register: what the three mappings hold under the key.\<close>

definition register :: "shared_memory \<Rightarrow> string \<Rightarrow> double option \<times> int option \<times> string option" where
  "register m key = (doubleData m key, intData m key, stringData m key)"

definition empty_memory :: shared_memory where
  "empty_memory = \<lparr>doubleData = Map.empty, intData = Map.empty, stringData = Map.empty\<rparr>"

section \<open>Requests and the receive loop\<close>

text \<open>
  A request as the handlers see it: the method, the declared content length (\<open>size_t\<close>,
  32 bits on the ESP32) and what the transport does on the successive calls of
  \<open>httpd_req_recv\<close>: deliver some bytes, time out, or fail.
\<close>

datatype http_method = HTTP_GET | HTTP_POST | HTTP_PUT | HTTP_DELETE

datatype recv_event = Bytes string | SockTimeout | SockError

record httpd_req =
  req_method :: http_method
  content_len :: "32 word"
  transport :: "recv_event list"

datatype esp_err = ESP_OK | ESP_FAIL

definition MAX_DATA_LEN :: int where
  "MAX_DATA_LEN = 100"

text \<open>
  How a handler run ends: it returns a status; or it leaves the defined behaviour of C++
  (a \<open>std::vector\<close> read past its end, an uncaught exception, a conversion of a
  \<open>double\<close> that \<open>int\<close> cannot hold); or it is still waiting for the transport.
\<close>

datatype fault = vector_out_of_range | uncaught exn | float_to_int_undefined

datatype outcome = Returns esp_err | Fault fault | Waiting

datatype response = Send string | Send_404 string

datatype flight_state = PREP | ARMED | BYPASS

text \<open>
  The calls by which a handler changes the register store: \<open>clearData(key)\<close>,
  \<open>storeDouble(key, value)\<close> and \<open>storeString(key, value)\<close>, and what each does to
  the store.
\<close>

datatype store_call = Clear string | Store_double string double | Store_string string string

definition perform :: "store_call \<Rightarrow> shared_memory \<Rightarrow> shared_memory" where
  "perform c m =
     (case c of
        Clear key \<Rightarrow> clearData key m
      | Store_double key v \<Rightarrow> storeDouble key v m
      | Store_string key v \<Rightarrow> storeString key v m)"

text \<open>
  The stores that another task can find while a handler makes its calls on the register
  store one after the other, no lock being held from one call to the next: the store
  before the first call and the store after each call.
\<close>

fun stores_seen :: "store_call list \<Rightarrow> shared_memory \<Rightarrow> shared_memory list" where
  "stores_seen [] m = [m]"
| "stores_seen (c # calls) m = m # stores_seen calls (perform c m)"

text \<open>
  What a run of a handler did: how it ended, the responses it sent, the calls that the
  handler itself made on the register store, in order, and the number of calls of
  \<open>httpd_req_recv\<close> it made.
\<close>

record run =
  ret :: outcome
  sent :: "response list"
  store_calls :: "store_call list"
  recv_calls :: nat

text \<open>
  A run of a handler that changes the store by these calls only: \<open>mem\<close> is the store
  that they leave.
\<close>

record store_run = run +
  mem :: shared_memory

definition ran ::
  "outcome \<Rightarrow> response list \<Rightarrow> store_call list \<Rightarrow> shared_memory \<Rightarrow> nat \<Rightarrow> store_run" where
  "ran out responses calls m n =
     \<lparr>ret = out, sent = responses, store_calls = calls, recv_calls = n,
      mem = fold perform calls m\<rparr>"

text \<open>
  A run of the STATE handler: \<open>transitions\<close> are the calls of \<open>STATE::updateState\<close> it
  made, in order. The class \<open>STATE\<close> is not among the sources: what its constructor,
  \<open>updateState\<close> and its destructor write into the register store is not represented,
  and such a run says nothing of the store that it leaves.
\<close>

record state_run = run +
  transitions :: "flight_state list"

definition state_ran ::
  "outcome \<Rightarrow> response list \<Rightarrow> nat \<Rightarrow> flight_state list \<Rightarrow> state_run" where
  "state_ran out responses n trs =
     \<lparr>ret = out, sent = responses, store_calls = [], recv_calls = n, transitions = trs\<rparr>"

datatype recv_result = Received string nat | RecvFailed nat | RecvWaiting nat

text \<open>
  The receive loop that the four ingestion handlers share, word for word:
  \<^verbatim>\<open>while (received < total_len) { cur_len = httpd_req_recv(req, received_data + received,
  MAX_DATA_LEN); if (cur_len <= 0) { if (cur_len == HTTPD_SOCK_ERR_TIMEOUT) continue;
  return ESP_FAIL; } received += cur_len; }\<close>
  \<open>buf\<close> is what \<open>received_data\<close> holds so far and \<open>n\<close> counts the calls.
  \<open>httpd_req_recv\<close> delivers at most the buffer length it is given and at most what is
  left of the declared content. When the transport has no further event the handler is
  still inside the loop.
\<close>

fun recv_loop :: "int \<Rightarrow> recv_event list \<Rightarrow> string \<Rightarrow> nat \<Rightarrow> recv_result" where
  "recv_loop total_len [] buf n =
     (if int (length buf) < total_len then RecvWaiting n else Received buf n)"
| "recv_loop total_len (ev # evs) buf n =
     (if int (length buf) < total_len then
        (case ev of
           SockTimeout \<Rightarrow> recv_loop total_len evs buf (Suc n)
         | SockError \<Rightarrow> RecvFailed (Suc n)
         | Bytes bs \<Rightarrow>
            (let chunk = take (nat (min MAX_DATA_LEN (total_len - int (length buf)))) bs
             in if chunk = [] then RecvFailed (Suc n)
                else recv_loop total_len evs (buf @ chunk) (Suc n)))
      else Received buf n)"

text \<open>\<open>values[i]\<close> on a \<open>std::vector\<close>: no bounds check, undefined past the end.\<close>

definition vector_at :: "'a list \<Rightarrow> nat \<Rightarrow> 'a option" where
  "vector_at xs i = (if i < length xs then Some (xs ! i) else None)"

text \<open>
  \<open>if(values[i] != 0){ sharedMemory.clearData(key); sharedMemory.storeDouble(key, values[i]); }\<close>
\<close>

definition update_if_nonzero :: "double list \<Rightarrow> nat \<Rightarrow> string \<Rightarrow> fault + store_call list" where
  "update_if_nonzero vals i key =
     (case vector_at vals i of
        None \<Rightarrow> Inl vector_out_of_range
      | Some v \<Rightarrow> Inr (if v \<noteq> Finite 0 then [Clear key, Store_double key v] else []))"

text \<open>
  A sequence of such statements: the first fault stops the run, after the calls of the
  statements before it.
\<close>

fun update_registers ::
  "double list \<Rightarrow> (nat \<times> string) list \<Rightarrow> fault option \<times> store_call list" where
  "update_registers vals [] = (None, [])"
| "update_registers vals ((i, key) # rest) =
     (case update_if_nonzero vals i key of
        Inl f \<Rightarrow> (Some f, [])
      | Inr calls \<Rightarrow>
          (fst (update_registers vals rest), calls @ snd (update_registers vals rest)))"

definition finish :: "fault option \<times> store_call list \<Rightarrow> shared_memory \<Rightarrow> nat \<Rightarrow> store_run" where
  "finish r m n =
     ran (case fst r of None \<Rightarrow> Returns ESP_OK | Some f \<Rightarrow> Fault f) [] (snd r) m n"

definition not_found :: "shared_memory \<Rightarrow> store_run" where
  "not_found m = ran (Returns ESP_OK) [Send_404 ''Not Found''] [] m 0"

definition stopped :: "outcome \<Rightarrow> shared_memory \<Rightarrow> nat \<Rightarrow> store_run" where
  "stopped out m n = ran out [] [] m n"

section \<open>The ingestion handlers\<close>

text \<open>
  \<open>handle_SWP_incoming\<close>. \<open>int total_len = req->content_len\<close> converts the unsigned
  length to \<open>int\<close>: the signed reading of the same 32 bits. The \<open>ESP_LOGI\<close> line reads
  \<open>values[0]\<close> before the first test does.
\<close>

definition handle_SWP_incoming ::
  "(string \<Rightarrow> exn + double) \<Rightarrow> httpd_req \<Rightarrow> shared_memory \<Rightarrow> store_run" where
  "handle_SWP_incoming stod req sharedMemory =
     (if req_method req = HTTP_POST then
        (let total_len = sint (content_len req)
         in if total_len \<ge> MAX_DATA_LEN then stopped (Returns ESP_FAIL) sharedMemory 0
            else
              (case recv_loop total_len (transport req) [] 0 of
                 RecvFailed n \<Rightarrow> stopped (Returns ESP_FAIL) sharedMemory n
               | RecvWaiting n \<Rightarrow> stopped Waiting sharedMemory n
               | Received received_data n \<Rightarrow>
                  (case extractValuesAndIds stod (c_str received_data) [] [] of
                     Inl e \<Rightarrow> stopped (Fault (uncaught e)) sharedMemory n
                   | Inr (ids, vals) \<Rightarrow>
                      (case vector_at vals 0 of
                         None \<Rightarrow> stopped (Fault vector_out_of_range) sharedMemory n
                       | Some logged \<Rightarrow>
                          finish
                            (update_registers vals
                               [(0, ''TLat''), (1, ''TLong''), (2, ''TAlt''), (3, ''CAlt''),
                                (4, ''TVel'')])
                            sharedMemory n))))
      else not_found sharedMemory)"

text \<open>\<open>handle_SYS_incoming\<close>: the same text with the actuator registers.\<close>

definition handle_SYS_incoming ::
  "(string \<Rightarrow> exn + double) \<Rightarrow> httpd_req \<Rightarrow> shared_memory \<Rightarrow> store_run" where
  "handle_SYS_incoming stod req sharedMemory =
     (if req_method req = HTTP_POST then
        (let total_len = sint (content_len req)
         in if total_len \<ge> MAX_DATA_LEN then stopped (Returns ESP_FAIL) sharedMemory 0
            else
              (case recv_loop total_len (transport req) [] 0 of
                 RecvFailed n \<Rightarrow> stopped (Returns ESP_FAIL) sharedMemory n
               | RecvWaiting n \<Rightarrow> stopped Waiting sharedMemory n
               | Received received_data n \<Rightarrow>
                  (case extractValuesAndIds stod (c_str received_data) [] [] of
                     Inl e \<Rightarrow> stopped (Fault (uncaught e)) sharedMemory n
                   | Inr (ids, vals) \<Rightarrow>
                      (case vector_at vals 0 of
                         None \<Rightarrow> stopped (Fault vector_out_of_range) sharedMemory n
                       | Some logged \<Rightarrow>
                          finish
                            (update_registers vals
                               [(0, ''WingFL''), (1, ''WingFR''), (2, ''WingRL''),
                                (3, ''WingRR''), (4, ''THR'')])
                            sharedMemory n))))
      else not_found sharedMemory)"

text \<open>
  \<open>int(v)\<close> on a \<open>double\<close>: the value truncated toward zero; undefined when \<open>int\<close>
  (32 bits) cannot hold it, so for NaN and the infinities too.
\<close>

definition double_to_int :: "double \<Rightarrow> int option" where
  "double_to_int v =
     (case v of
        Finite q \<Rightarrow>
          (let t = (if 0 \<le> q then \<lfloor>q\<rfloor> else \<lceil>q\<rceil>)
           in if - (2 ^ 31) \<le> t \<and> t < 2 ^ 31 then Some t else None)
      | PlusInf \<Rightarrow> None
      | MinusInf \<Rightarrow> None
      | NaN \<Rightarrow> None)"

text \<open>
  The tail of \<open>handle_STATE_incoming\<close>: the four tests \<open>if(values[i] != 0){}\<close> for
  \<open>i = 1..4\<close> have empty bodies but read the vector.
\<close>

definition STATE_tail :: "double list \<Rightarrow> nat \<Rightarrow> flight_state list \<Rightarrow> state_run" where
  "STATE_tail vals n trs =
     state_ran (if list_all (\<lambda>i. vector_at vals i \<noteq> None) [1, 2, 3, 4] then Returns ESP_OK
                else Fault vector_out_of_range)
       [] n trs"

text \<open>
  \<open>handle_STATE_incoming\<close>: \<open>switch(int(values[0]))\<close> with the cases 1, 2 and 3 and no
  default. The handler does not use the register store itself.
\<close>

definition handle_STATE_incoming :: "(string \<Rightarrow> exn + double) \<Rightarrow> httpd_req \<Rightarrow> state_run" where
  "handle_STATE_incoming stod req =
     (if req_method req = HTTP_POST then
        (let total_len = sint (content_len req)
         in if total_len \<ge> MAX_DATA_LEN then state_ran (Returns ESP_FAIL) [] 0 []
            else
              (case recv_loop total_len (transport req) [] 0 of
                 RecvFailed n \<Rightarrow> state_ran (Returns ESP_FAIL) [] n []
               | RecvWaiting n \<Rightarrow> state_ran Waiting [] n []
               | Received received_data n \<Rightarrow>
                  (case extractValuesAndIds stod (c_str received_data) [] [] of
                     Inl e \<Rightarrow> state_ran (Fault (uncaught e)) [] n []
                   | Inr (ids, vals) \<Rightarrow>
                      (case vector_at vals 0 of
                         None \<Rightarrow> state_ran (Fault vector_out_of_range) [] n []
                       | Some v0 \<Rightarrow>
                          (if v0 \<noteq> Finite 0 then
                             (case double_to_int v0 of
                                None \<Rightarrow> state_ran (Fault float_to_int_undefined) [] n []
                              | Some code \<Rightarrow>
                                  STATE_tail vals n
                                    (if code = 1 then [PREP]
                                     else if code = 2 then [ARMED]
                                     else if code = 3 then [BYPASS]
                                     else []))
                           else STATE_tail vals n [])))))
      else state_ran (Returns ESP_OK) [Send_404 ''Not Found''] 0 [])"

text \<open>
  \<open>handle_AUTH_incoming\<close>. \<open>received_data != token_saved\<close> compares the \<open>char\<close> buffer
  with a \<open>std::string\<close>: the buffer is read as a C string.
\<close>

definition handle_AUTH_incoming :: "httpd_req \<Rightarrow> shared_memory \<Rightarrow> store_run" where
  "handle_AUTH_incoming req sharedMemory =
     (if req_method req = HTTP_POST then
        (let total_len = sint (content_len req)
         in if total_len \<ge> MAX_DATA_LEN then stopped (Returns ESP_FAIL) sharedMemory 0
            else
              (case recv_loop total_len (transport req) [] 0 of
                 RecvFailed n \<Rightarrow> stopped (Returns ESP_FAIL) sharedMemory n
               | RecvWaiting n \<Rightarrow> stopped Waiting sharedMemory n
               | Received received_data n \<Rightarrow>
                  (let token_saved = getLastString ''arm_token'' sharedMemory
                   in if c_str received_data \<noteq> token_saved then
                        ran (Returns ESP_OK) [Send ''STATE-CHANGE-FAIL''] [] sharedMemory n
                      else
                        ran (Returns ESP_OK) [Send ''STATE-CHANGE-SUCCESS'']
                          [Clear ''state'', Store_double ''state'' (Finite 2),
                           Clear ''stateDescript'', Store_string ''stateDescript'' ''ARMED'']
                          sharedMemory n)))
      else not_found sharedMemory)"

section \<open>The logger\<close>

text \<open>
  The first two queries of \<open>Logger::EVENT_LOG_SDD\<close> (and of \<open>EVENT_LOG_SSL\<close>):
  \<open>getLastString("stateDescript")\<close> for the label and \<open>getLastInt("state")\<close> for
  \<open>state_data\<close>, which is printed as \<open>MACHINE-STATE\<close>.
\<close>

definition logged_state :: "shared_memory \<Rightarrow> string \<times> int" where
  "logged_state obj = (getLastString ''stateDescript'' obj, getLastInt ''state'' obj)"

section \<open>Arm token issuance\<close>

text \<open>
  \<open>handle_arm_token_request\<close>. The class \<open>CONTROLLER_TASKS\<close> is not among the sources:
  the token generator is a parameter, and so are the value that
  \<open>verifyFlightConfiguration()\<close> returns on this call and the two results of
  \<open>esp_random()\<close>.
\<close>

definition handle_arm_token_request ::
  "(32 word \<Rightarrow> 32 word \<Rightarrow> nat \<Rightarrow> string) \<Rightarrow> int \<Rightarrow> 32 word \<Rightarrow> 32 word \<Rightarrow>
   httpd_req \<Rightarrow> shared_memory \<Rightarrow> store_run" where
  "handle_arm_token_request generateRandomAlphanumericToken verifyFlightConfiguration
       seed1 seed2 req sharedMemory =
     (if req_method req = HTTP_POST then
        (if verifyFlightConfiguration \<noteq> 0 then
           (let packed_data = generateRandomAlphanumericToken seed1 seed2 6
            in ran (Returns ESP_OK) [Send packed_data]
                 [Clear ''arm_token'', Store_string ''arm_token'' packed_data]
                 sharedMemory 0)
         else stopped (Returns ESP_OK) sharedMemory 0)
      else not_found sharedMemory)"

definition isalnum :: "char \<Rightarrow> bool" where
  "isalnum c =
     (c \<in> set ''0123456789ABCDEFGHIJKLMNOPQRSTUVWXYZabcdefghijklmnopqrstuvwxyz'')"

text \<open>
  Modelled from the spec: \<open>CONTROLLER_TASKS::generateRandomAlphanumericToken\<close> is not
  among the sources. Section 3 and 4.5 of the specification: the token is a randomly
  generated alphanumeric string of fixed length, derived from the two seeds. This is
  that contract, for a generator \<open>gen\<close>, on the seeds and length of one call.
\<close>

definition alphanumeric_token ::
  "(32 word \<Rightarrow> 32 word \<Rightarrow> nat \<Rightarrow> string) \<Rightarrow> 32 word \<Rightarrow> 32 word \<Rightarrow> nat \<Rightarrow> bool" where
  "alphanumeric_token gen seed1 seed2 n =
     (length (gen seed1 seed2 n) = n \<and> list_all isalnum (gen seed1 seed2 n))"

section \<open>Telemetry framing: \<open>packData\<close>\<close>

text \<open>The decimal digits of a natural number, as \<open>itoa\<close> and the stream inserters print them.\<close>

function dec_digits :: "nat \<Rightarrow> string" where
  "dec_digits n =
     (if n < 10 then [''0123456789'' ! n]
      else dec_digits (n div 10) @ [''0123456789'' ! (n mod 10)])"
  by pat_completeness auto
termination
  by (relation "measure (\<lambda>n. n)") auto

declare dec_digits.simps [simp del]

text \<open>The decimal exponent of a positive number \<open>a\<close>: the \<open>e\<close> with \<open>10^e \<le> a < 10^(e+1)\<close>.\<close>

definition floor_log10 :: "real \<Rightarrow> int" where
  "floor_log10 a =
     (if 1 \<le> a then int (length (dec_digits (nat \<lfloor>a\<rfloor>))) - 1
      else - int (length (dec_digits (nat (\<lceil>1 / a\<rceil> - 1)))))"

definition strip_zeros :: "string \<Rightarrow> string" where
  "strip_zeros s = rev (dropWhile (\<lambda>c. c = CHR ''0'') (rev s))"

definition with_point :: "string \<Rightarrow> string \<Rightarrow> string" where
  "with_point ip fr = ip @ (if fr = [] then [] else CHR ''.'' # fr)"

text \<open>
  \<open>packed << value\<close> for a \<open>float\<close> on a stream in its default state: the conversion
  \<open>%g\<close> with precision 6. The value is rounded to six significant digits; with \<open>X\<close>
  its decimal exponent after rounding, the fixed style is used when \<open>-4 \<le> X < 6\<close> and the
  scientific style otherwise (exponent of at least two digits); trailing zeros of the
  fraction are removed, and the point with them. (The rounding of the argument to the
  32-bit format and the sign of a negative zero are not represented.)
\<close>

definition float_out :: "double \<Rightarrow> string" where
  "float_out v =
     (case v of
        PlusInf \<Rightarrow> ''inf''
      | MinusInf \<Rightarrow> ''-inf''
      | NaN \<Rightarrow> ''nan''
      | Finite q \<Rightarrow>
          (if q = 0 then ''0''
           else
             (let a = \<bar>q\<bar>;
                  e0 = floor_log10 a;
                  m0 = round_half_even (scale 10 (5 - e0) a);
                  X = (if m0 = 1000000 then e0 + 1 else e0);
                  ds = dec_digits (nat (if m0 = 1000000 then 100000 else m0));
                  txt =
                    (if X < - 4 \<or> 6 \<le> X then
                       with_point [hd ds] (strip_zeros (tl ds)) @ ''e''
                       @ (if X < 0 then ''-'' else ''+'')
                       @ (if \<bar>X\<bar> < 10 then ''0'' else [])
                       @ dec_digits (nat \<bar>X\<bar>)
                     else if 0 \<le> X then
                       with_point (take (nat X + 1) ds) (strip_zeros (drop (nat X + 1) ds))
                     else
                       ''0.'' @ replicate (nat (- X - 1)) CHR ''0'' @ strip_zeros ds)
              in (if q < 0 then ''-'' else []) @ txt)))"

definition packData ::
  "string \<Rightarrow> double \<Rightarrow> string \<Rightarrow> double \<Rightarrow> string \<Rightarrow> double \<Rightarrow> string \<Rightarrow> double \<Rightarrow> string" where
  "packData id1 value1 id2 value2 id3 value3 id4 value4 =
     id1 @ float_out value1 @ ''_'' @ id2 @ float_out value2 @ ''_''
     @ id3 @ float_out value3 @ ''_'' @ id4 @ float_out value4"

section \<open>The deprecated array store (\<open>temp_access_mem.cpp\<close>)\<close>

text \<open>
  The arrays hold \<open>char*\<close> values: addresses, 0 for the null pointer. \<open>strings\<close> gives
  the C string that lives at an address, for the addresses that hold one. The array
  \<open>floatingP\<close> has \<open>length\<close> entries (the macro is not among the sources: the length
  of the list stands for it) and, being static, starts as all null pointers.
\<close>

type_synonym addr = nat

record ptam =
  floatingP :: "addr list"
  floatingP_LEN :: "8 word"
  strings :: "addr \<rightharpoonup> string"

datatype misbehaviour =
  wild_pointer_write | wild_pointer_read | array_out_of_bounds | int_overflow | never_returns

text \<open>\<open>itoa(value, str, 10)\<close> and \<open>atoi(str)\<close>.\<close>

definition itoa :: "int \<Rightarrow> string" where
  "itoa n = (if n < 0 then CHR ''-'' # dec_digits (nat (- n)) else dec_digits (nat n))"

definition atoi :: "string \<Rightarrow> int option" where
  "atoi str =
     (let s = dropWhile isspace str;
          neg = (s \<noteq> [] \<and> hd s = CHR ''-'');
          body = (if s \<noteq> [] \<and> hd s \<in> set ''+-'' then tl s else s);
          n = int (digits_val 10 (takeWhile isdigit body));
          v = (if neg then - n else n)
      in if - (2 ^ 31) \<le> v \<and> v < 2 ^ 31 then Some v else None)"

text \<open>
  \<open>PTAM_ADD_BASE_DOUBLE(baseID, data)\<close>. The local \<open>char* converted\<close> is never
  initialised: \<open>converted\<close> is the value it happens to hold. \<open>itoa(data, converted, 10)\<close>
  converts \<open>data\<close> to \<open>int\<close> and writes its digits there. The indices
  \<open>floatingP_LEN - 2\<close> and \<open>floatingP_LEN - 1\<close> are computed in \<open>int\<close>; the counter is
  incremented (modulo 256) after the two stores. The function returns \<open>sizeof(data)\<close>.
\<close>

definition PTAM_ADD_BASE_DOUBLE :: "addr \<Rightarrow> double \<Rightarrow> addr \<Rightarrow> ptam \<Rightarrow> misbehaviour + (nat \<times> ptam)" where
  "PTAM_ADD_BASE_DOUBLE baseID data converted m =
     (case double_to_int data of
        None \<Rightarrow> Inl int_overflow
      | Some n \<Rightarrow>
         (if strings m converted = None then Inl wild_pointer_write
          else
            (let i = int (unat (floatingP_LEN m)) - 2;
                 j = int (unat (floatingP_LEN m)) - 1
             in if i < 0 \<or> int (length (floatingP m)) \<le> j then Inl array_out_of_bounds
                else
                  Inr (8,
                    m\<lparr>strings := (strings m)(converted \<mapsto> itoa n),
                      floatingP := (floatingP m)[nat i := baseID, nat j := converted],
                      floatingP_LEN := floatingP_LEN m + 2\<rparr>))))"

text \<open>
  The scan of \<open>PTAM_RETRIEVE_BASE_DOUBLE\<close>:
  \<^verbatim>\<open>for(uint8_t i = 0; i < length; i+=2){ if(floatingP[i] == baseID){ temp_data = floatingP[i + 1]; break; } }\<close>
  The test compares the two pointers. The counter is 8 bits wide: past 254 it is 0 again
  and the scan starts over, without end.
\<close>

function scan_floatingP :: "addr list \<Rightarrow> addr \<Rightarrow> nat \<Rightarrow> misbehaviour + nat option" where
  "scan_floatingP arr baseID i =
     (if i < length arr then
        (if arr ! i = baseID then Inr (Some i)
         else if 256 \<le> i + 2 then Inl never_returns
         else scan_floatingP arr baseID (i + 2))
      else Inr None)"
  by pat_completeness auto
termination
  by (relation "measure (\<lambda>(arr, baseID, i). 256 - i)") auto

declare scan_floatingP.simps [simp del]

text \<open>
  \<open>PTAM_RETRIEVE_BASE_DOUBLE(baseID)\<close>: when the scan finds no entry, \<open>temp_data\<close> is
  never assigned and \<open>atoi\<close> reads through it.
\<close>

definition PTAM_RETRIEVE_BASE_DOUBLE :: "addr \<Rightarrow> ptam \<Rightarrow> misbehaviour + double" where
  "PTAM_RETRIEVE_BASE_DOUBLE baseID m =
     (case scan_floatingP (floatingP m) baseID 0 of
        Inl e \<Rightarrow> Inl e
      | Inr None \<Rightarrow> Inl wild_pointer_read
      | Inr (Some i) \<Rightarrow>
         (if length (floatingP m) \<le> i + 1 then Inl array_out_of_bounds
          else
            (case strings m (floatingP m ! (i + 1)) of
               None \<Rightarrow> Inl wild_pointer_read
             | Some s \<Rightarrow>
                (case atoi s of
                   None \<Rightarrow> Inl int_overflow
                 | Some n \<Rightarrow> Inr (Finite (of_int n))))))"

section \<open>Concrete requests and stores\<close>

definition swp_request :: httpd_req where
  "swp_request =
     \<lparr>req_method = HTTP_POST, content_len = 33,
      transport = [SockTimeout, Bytes ''TLat1.5_TLong0_'', Bytes ''TAlt-2_CAlt0_TVel7'']\<rparr>"

definition swp_memory :: shared_memory where
  "swp_memory = storeString ''TLong'' ''old'' (storeDouble ''TLong'' (Finite 9) empty_memory)"

definition short_request :: httpd_req where
  "short_request =
     \<lparr>req_method = HTTP_POST, content_len = 5, transport = [Bytes ''TLat5'']\<rparr>"

definition fractional_state_request :: httpd_req where
  "fractional_state_request =
     \<lparr>req_method = HTTP_POST, content_len = 16, transport = [Bytes ''S1.5_A0_B0_C0_D0'']\<rparr>"

definition rounded_state_request :: httpd_req where
  "rounded_state_request =
     \<lparr>req_method = HTTP_POST, content_len = 35,
      transport = [Bytes ''S1.99999999999999999999_A0_B0_C0_D0'']\<rparr>"

definition range_error_request :: httpd_req where
  "range_error_request =
     \<lparr>req_method = HTTP_POST, content_len = 18, transport = [Bytes ''A1e309_B0_C0_D0_E0'']\<rparr>"

definition armed_state_request :: httpd_req where
  "armed_state_request =
     \<lparr>req_method = HTTP_POST, content_len = 14, transport = [Bytes ''S2_A0_B0_C0_D0'']\<rparr>"

definition auth_memory :: shared_memory where
  "auth_memory =
     storeString ''stateDescript'' ''PREP''
       (storeInt ''state'' 1 (storeString ''arm_token'' ''abc123'' empty_memory))"

definition auth_request :: httpd_req where
  "auth_request =
     \<lparr>req_method = HTTP_POST, content_len = 6, transport = [Bytes ''abc'', Bytes ''123'']\<rparr>"

definition wrong_auth_request :: httpd_req where
  "wrong_auth_request =
     \<lparr>req_method = HTTP_POST, content_len = 5, transport = [Bytes ''wrong'']\<rparr>"

definition nul_auth_request :: httpd_req where
  "nul_auth_request =
     \<lparr>req_method = HTTP_POST, content_len = 9,
      transport = [Bytes (''abc123'' @ [NUL] @ ''xy'')]\<rparr>"

definition oversize_request :: httpd_req where
  "oversize_request =
     \<lparr>req_method = HTTP_POST, content_len = 0x80000000, transport = []\<rparr>"

definition token_request :: httpd_req where
  "token_request = \<lparr>req_method = HTTP_POST, content_len = 0, transport = []\<rparr>"

definition demo_generator :: "32 word \<Rightarrow> 32 word \<Rightarrow> nat \<Rightarrow> string" where
  "demo_generator seed1 seed2 n = take n ''k3Xq9Zt0Lm''"

definition empty_armed :: shared_memory where
  "empty_armed = storeString ''arm_token'' ''abc123'' empty_memory"

text \<open>
  The stores that a reader can find while the AUTH handler serves \<open>auth_request\<close> on
  \<open>auth_memory\<close>.
\<close>

definition auth_stores_seen :: "shared_memory list" where
  "auth_stores_seen =
     stores_seen (store_calls (handle_AUTH_incoming auth_request auth_memory)) auth_memory"

text \<open>
  The store \<open>auth_memory\<close> after a token request that passes the configuration check,
  and a verification request that carries the token issued by it.
\<close>

definition issued_memory :: shared_memory where
  "issued_memory =
     mem (handle_arm_token_request demo_generator 1 7 11 token_request auth_memory)"

definition issued_auth_request :: httpd_req where
  "issued_auth_request =
     \<lparr>req_method = HTTP_POST, content_len = 6, transport = [Bytes ''k3Xq9Z'']\<rparr>"

section \<open>Well-formed wire input\<close>

text \<open>
  An identifier that the decoder reads back: none of its characters is one of
  \<open>0123456789.-\<close>, at which the decoder cuts the item, or the separator \<open>_\<close>.
\<close>

definition wire_id :: "string \<Rightarrow> bool" where
  "wire_id s = list_all (\<lambda>c. c \<notin> set ''0123456789.-_'') s"

text \<open>
  A value that the decoder reads back: the text the stream prints for it starts with one
  of \<open>0123456789.-\<close>, holds no separator, and \<open>stod\<close> reads the value from it.
\<close>

definition wire_value :: "(string \<Rightarrow> exn + double) \<Rightarrow> double \<Rightarrow> bool" where
  "wire_value stod v =
     (float_out v \<noteq> [] \<and> hd (float_out v) \<in> set ''0123456789.-''
      \<and> CHR ''_'' \<notin> set (float_out v) \<and> stod (float_out v) = Inr v)"

text \<open>Adding an entry to the deprecated store and retrieving one, in sequence.\<close>

definition add_then_retrieve ::
  "addr \<Rightarrow> double \<Rightarrow> addr \<Rightarrow> addr \<Rightarrow> ptam \<Rightarrow> misbehaviour + double" where
  "add_then_retrieve baseID data converted queryID m =
     (case PTAM_ADD_BASE_DOUBLE baseID data converted m of
        Inl e \<Rightarrow> Inl e
      | Inr (sz, m') \<Rightarrow> PTAM_RETRIEVE_BASE_DOUBLE queryID m')"

text \<open>
  A store of eight entries as the program starts, with the key \<open>TLat\<close> at the addresses
  100 and 101 (two copies of the same text) and a buffer at 300; and the same store with
  the counter at 2.
\<close>

definition ptam_fresh :: ptam where
  "ptam_fresh =
     \<lparr>floatingP = replicate 8 0, floatingP_LEN = 0,
      strings = [100 \<mapsto> ''TLat'', 101 \<mapsto> ''TLat'', 300 \<mapsto> []]\<rparr>"

definition ptam_second :: ptam where
  "ptam_second = ptam_fresh\<lparr>floatingP_LEN := 2\<rparr>"

section \<open>Properties\<close>

subsection \<open>Evaluation rules\<close>

lemma bin_digits_numeral:
  "bin_digits (numeral k) =
     (if (numeral k :: int) < 2 then 1 else Suc (bin_digits (numeral k div 2)))"
  by (rule bin_digits.simps)

lemma bin_digits_small:
  "bin_digits 0 = 1" "bin_digits 1 = 1"
  by (simp_all add: bin_digits.simps)

lemmas binary64_eval =
  binary64_def strtod_result_def floor_log2_def round_half_even_def scale_def Let_def
  bin_digits_numeral bin_digits_small

lemmas stod_eval =
  std_stod_def isspace_def starts_with_ci_def tolower_def hex_float_def dec_float_def
  mantissa_exp_def isdigit_def isxdigit_def exponent_part_def digits_val_def digit_val_def
  binary64_eval

lemmas extract_eval = extractValuesAndIds_def find_first_of_def stod_eval

lemma dec_digits_numeral:
  "dec_digits (numeral k) =
     (if (numeral k :: nat) < 10 then [''0123456789'' ! numeral k]
      else dec_digits (numeral k div 10) @ [''0123456789'' ! (numeral k mod 10)])"
  by (rule dec_digits.simps)

lemma dec_digits_small:
  "dec_digits 0 = ''0''" "dec_digits 1 = ''1''" "dec_digits (Suc 0) = ''1''"
  by (simp_all add: dec_digits.simps)

lemmas float_out_eval =
  float_out_def Let_def floor_log10_def round_half_even_def scale_def strip_zeros_def
  with_point_def dec_digits_numeral dec_digits_small

subsection \<open>Runs\<close>

lemma ran_fields [simp]:
  "ret (ran out responses calls m n) = out"
  "sent (ran out responses calls m n) = responses"
  "store_calls (ran out responses calls m n) = calls"
  "mem (ran out responses calls m n) = fold perform calls m"
  "recv_calls (ran out responses calls m n) = n"
  by (simp_all add: ran_def)

lemma state_ran_fields [simp]:
  "ret (state_ran out responses n trs) = out"
  "sent (state_ran out responses n trs) = responses"
  "store_calls (state_ran out responses n trs) = []"
  "recv_calls (state_ran out responses n trs) = n"
  "transitions (state_ran out responses n trs) = trs"
  by (simp_all add: state_ran_def)

lemma perform_call [simp]:
  "perform (Clear key) m = clearData key m"
  "perform (Store_double key v) m = storeDouble key v m"
  "perform (Store_string key s) m = storeString key s m"
  by (simp_all add: perform_def)

subsection \<open>Register updates of the SWP and SYS handlers\<close>

lemma update_if_nonzero_calls:
  "i < length vals \<Longrightarrow>
   update_if_nonzero vals i k =
     Inr (if vals ! i = Finite 0 then [] else [Clear k, Store_double k (vals ! i)])"
  by (simp add: update_if_nonzero_def vector_at_def)

lemma update_registers_calls:
  "list_all (\<lambda>(i, k). i < length vals) slots \<Longrightarrow>
   update_registers vals slots =
     (None,
      concat (map (\<lambda>(i, k). if vals ! i = Finite 0 then []
                               else [Clear k, Store_double k (vals ! i)]) slots))"
  by (induction slots) (auto simp: update_if_nonzero_calls)

lemma register_slot_calls:
  "register (fold perform (if v = Finite 0 then [] else [Clear k, Store_double k v]) m) key =
     (if key = k \<and> v \<noteq> Finite 0 then (Some v, None, None) else register m key)"
  by (simp add: register_def storeDouble_def clearData_def)

lemma register_update_registers:
  "distinct (map snd slots) \<Longrightarrow>
   register
     (fold perform
        (concat (map (\<lambda>(i, k). if vals ! i = Finite 0 then []
                                 else [Clear k, Store_double k (vals ! i)]) slots)) m) key =
     (case map_of (map (\<lambda>(i, k). (k, i)) slots) key of
        None \<Rightarrow> register m key
      | Some i \<Rightarrow> if vals ! i \<noteq> Finite 0 then (Some (vals ! i), None, None)
                  else register m key)"
proof (induction slots arbitrary: m)
  case Nil
  then show ?case by simp
next
  case (Cons s slots)
  obtain i k where s: "s = (i, k)" by (cases s)
  define m' where
    "m' = fold perform (if vals ! i = Finite 0 then [] else [Clear k, Store_double k (vals ! i)]) m"
  have fresh: "map_of (map (\<lambda>(i, k). (k, i)) slots) k = None"
    using Cons.prems s by (force simp: map_of_eq_None_iff)
  have IH: "register
     (fold perform
        (concat (map (\<lambda>(i, k). if vals ! i = Finite 0 then []
                                 else [Clear k, Store_double k (vals ! i)]) slots)) m') key =
     (case map_of (map (\<lambda>(i, k). (k, i)) slots) key of
        None \<Rightarrow> register m' key
      | Some i \<Rightarrow> if vals ! i \<noteq> Finite 0 then (Some (vals ! i), None, None)
                  else register m' key)"
    using Cons.IH Cons.prems by simp
  have step: "register m' key =
     (if key = k \<and> vals ! i \<noteq> Finite 0 then (Some (vals ! i), None, None)
      else register m key)"
    unfolding m'_def by (rule register_slot_calls)
  have unfold: "fold perform
        (concat (map (\<lambda>(i, k). if vals ! i = Finite 0 then []
                                 else [Clear k, Store_double k (vals ! i)]) (s # slots))) m =
      fold perform
        (concat (map (\<lambda>(i, k). if vals ! i = Finite 0 then []
                                 else [Clear k, Store_double k (vals ! i)]) slots)) m'"
    unfolding m'_def s by simp
  show ?case
  proof (cases "key = k")
    case True
    then show ?thesis
      unfolding unfold using IH fresh step s by simp
  next
    case False
    then show ?thesis
      unfolding unfold using IH step s by (simp split: option.splits)
  qed
qed

lemma register_slot:
  assumes "distinct (map snd slots)" and "(i, k) \<in> set slots"
  shows "register
     (fold perform
        (concat (map (\<lambda>(i, k). if vals ! i = Finite 0 then []
                                 else [Clear k, Store_double k (vals ! i)]) slots)) m) k =
           (if vals ! i = Finite 0 then register m k
            else register (storeDouble k (vals ! i) (clearData k m)) k)"
proof -
  have "distinct (map fst (map (\<lambda>(i, k). (k, i)) slots))"
    using assms(1) by (simp add: case_prod_unfold comp_def)
  moreover have "(k, i) \<in> set (map (\<lambda>(i, k). (k, i)) slots)"
    using assms(2) by force
  ultimately have "map_of (map (\<lambda>(i, k). (k, i)) slots) k = Some i"
    by (rule map_of_is_SomeI)
  then show ?thesis
    using register_update_registers [OF assms(1), of vals m k]
    by (simp add: register_def storeDouble_def clearData_def)
qed

lemma register_other:
  assumes "distinct (map snd slots)" and "key \<notin> snd ` set slots"
  shows "register
     (fold perform
        (concat (map (\<lambda>(i, k). if vals ! i = Finite 0 then []
                                 else [Clear k, Store_double k (vals ! i)]) slots)) m) key =
         register m key"
proof -
  have "map_of (map (\<lambda>(i, k). (k, i)) slots) key = None"
    using assms(2) by (force simp: map_of_eq_None_iff)
  then show ?thesis
    using register_update_registers [OF assms(1), of vals m key] by simp
qed

lemma swp_request_recv:
  "recv_loop (sint (content_len swp_request)) (transport swp_request) [] 0 =
     Received ''TLat1.5_TLong0_TAlt-2_CAlt0_TVel7'' 3"
  by (simp add: swp_request_def MAX_DATA_LEN_def)

lemma swp_request_decode:
  "extractValuesAndIds std_stod (c_str ''TLat1.5_TLong0_TAlt-2_CAlt0_TVel7'') [] [] =
     Inr ([''TLat'', ''TLong'', ''TAlt'', ''CAlt'', ''TVel''],
          [Finite 1.5, Finite 0, Finite (- 2), Finite 0, Finite 7])"
  by (simp add: c_str_def NUL_def extract_eval)

text \<open>
  C4 (zero means no-op). A request of the SWP or of the SYS endpoint whose body is received
  and decodes to five values, whatever \<open>std::stod\<close> makes of the texts, returns
  \<open>ESP_OK\<close>. The calls it makes on the store are, for
  the positions 0 to 4 in order, none when the decoded value of the position is exactly 0,
  and otherwise \<open>clearData\<close> then \<open>storeDouble\<close> of the decoded value on the register of
  the position (\<open>TLat, TLong, TAlt, CAlt, TVel\<close> for SWP, \<open>WingFL, WingFR, WingRL,
  WingRR, THR\<close> for SYS). So the register of position \<open>i\<close> is left as it was when the
  value is 0 and otherwise holds what the clear followed by the set leave in it, whatever
  the values of the other positions; and every key that is not one of the five registers
  is untouched.
\<close>

theorem zero_means_no_op:
  assumes post: "req_method req = HTTP_POST"
    and len: "sint (content_len req) < MAX_DATA_LEN"
    and recv: "recv_loop (sint (content_len req)) (transport req) [] 0 = Received received_data n"
    and dec: "extractValuesAndIds stod (c_str received_data) [] [] = Inr (ids, vals)"
    and five: "length vals = 5"
    and i: "i < 5"
    and swp: "swp = [''TLat'', ''TLong'', ''TAlt'', ''CAlt'', ''TVel'']"
    and sys: "sys = [''WingFL'', ''WingFR'', ''WingRL'', ''WingRR'', ''THR'']"
  shows "ret (handle_SWP_incoming stod req m) = Returns ESP_OK \<and>
         ret (handle_SYS_incoming stod req m) = Returns ESP_OK \<and>
         store_calls (handle_SWP_incoming stod req m) =
           concat (map (\<lambda>(i, key). if vals ! i = Finite 0 then []
                                     else [Clear key, Store_double key (vals ! i)])
                     (zip [0..<5] swp)) \<and>
         store_calls (handle_SYS_incoming stod req m) =
           concat (map (\<lambda>(i, key). if vals ! i = Finite 0 then []
                                     else [Clear key, Store_double key (vals ! i)])
                     (zip [0..<5] sys)) \<and>
         register (mem (handle_SWP_incoming stod req m)) (swp ! i) =
           (if vals ! i = Finite 0 then register m (swp ! i)
            else register (storeDouble (swp ! i) (vals ! i) (clearData (swp ! i) m)) (swp ! i)) \<and>
         register (mem (handle_SYS_incoming stod req m)) (sys ! i) =
           (if vals ! i = Finite 0 then register m (sys ! i)
            else register (storeDouble (sys ! i) (vals ! i) (clearData (sys ! i) m)) (sys ! i)) \<and>
         (\<forall>key. key \<notin> set swp \<longrightarrow> register (mem (handle_SWP_incoming stod req m)) key = register m key) \<and>
         (\<forall>key. key \<notin> set sys \<longrightarrow> register (mem (handle_SYS_incoming stod req m)) key = register m key)"
proof -
  let ?calls = "\<lambda>slots. concat (map (\<lambda>(i, key). if vals ! i = Finite 0 then []
                                     else [Clear key, Store_double key (vals ! i)]) slots)"
  define swp_slots where "swp_slots = zip [0..<5] swp"
  define sys_slots where "sys_slots = zip [0..<5] sys"
  have upt5: "[0..<5] = [0, 1, 2, 3, Suc 3]"
    by (simp add: upt_rec)
  have swp_slots: "swp_slots = [(0, ''TLat''), (1, ''TLong''), (2, ''TAlt''), (3, ''CAlt''), (4, ''TVel'')]"
    unfolding swp_slots_def swp upt5 by simp
  have sys_slots: "sys_slots = [(0, ''WingFL''), (1, ''WingFR''), (2, ''WingRL''), (3, ''WingRR''), (4, ''THR'')]"
    unfolding sys_slots_def sys upt5 by simp
  have v0: "vector_at vals 0 = Some (vals ! 0)"
    using five by (simp add: vector_at_def)
  have in_swp: "list_all (\<lambda>(i, k). i < length vals) swp_slots"
    and in_sys: "list_all (\<lambda>(i, k). i < length vals) sys_slots"
    using five by (simp_all add: swp_slots sys_slots)
  have "handle_SWP_incoming stod req m = finish (update_registers vals swp_slots) m n"
    unfolding swp_slots using post len recv dec v0 by (simp add: handle_SWP_incoming_def)
  then have run_swp: "handle_SWP_incoming stod req m = ran (Returns ESP_OK) [] (?calls swp_slots) m n"
    by (simp add: update_registers_calls [OF in_swp] finish_def)
  have "handle_SYS_incoming stod req m = finish (update_registers vals sys_slots) m n"
    unfolding sys_slots using post len recv dec v0 by (simp add: handle_SYS_incoming_def)
  then have run_sys: "handle_SYS_incoming stod req m = ran (Returns ESP_OK) [] (?calls sys_slots) m n"
    by (simp add: update_registers_calls [OF in_sys] finish_def)
  have len_swp: "length swp = 5" and len_sys: "length sys = 5"
    by (simp_all add: swp sys)
  have d_swp: "distinct (map snd swp_slots)"
    unfolding swp_slots_def by (simp add: len_swp) (simp add: swp)
  have d_sys: "distinct (map snd sys_slots)"
    unfolding sys_slots_def by (simp add: len_sys) (simp add: sys)
  have keys_swp: "snd ` set swp_slots = set swp"
    unfolding swp_slots_def by (simp add: len_swp flip: set_map)
  have keys_sys: "snd ` set sys_slots = set sys"
    unfolding sys_slots_def by (simp add: len_sys flip: set_map)
  have i_swp: "(i, swp ! i) \<in> set swp_slots"
    unfolding swp_slots_def using i by (auto simp: set_zip len_swp intro!: exI [of _ i])
  have i_sys: "(i, sys ! i) \<in> set sys_slots"
    unfolding sys_slots_def using i by (auto simp: set_zip len_sys intro!: exI [of _ i])
  have ok: "ret (handle_SWP_incoming stod req m) = Returns ESP_OK"
           "ret (handle_SYS_incoming stod req m) = Returns ESP_OK"
    unfolding run_swp run_sys by simp_all
  have calls: "store_calls (handle_SWP_incoming stod req m) = ?calls (zip [0..<5] swp)"
    "store_calls (handle_SYS_incoming stod req m) = ?calls (zip [0..<5] sys)"
    unfolding run_swp run_sys swp_slots_def sys_slots_def by simp_all
  have mem_swp: "mem (handle_SWP_incoming stod req m) = fold perform (?calls swp_slots) m"
    and mem_sys: "mem (handle_SYS_incoming stod req m) = fold perform (?calls sys_slots) m"
    unfolding run_swp run_sys by simp_all
  have at_swp: "register (mem (handle_SWP_incoming stod req m)) (swp ! i) =
           (if vals ! i = Finite 0 then register m (swp ! i)
            else register (storeDouble (swp ! i) (vals ! i) (clearData (swp ! i) m)) (swp ! i))"
    unfolding mem_swp by (rule register_slot [OF d_swp i_swp])
  have at_sys: "register (mem (handle_SYS_incoming stod req m)) (sys ! i) =
           (if vals ! i = Finite 0 then register m (sys ! i)
            else register (storeDouble (sys ! i) (vals ! i) (clearData (sys ! i) m)) (sys ! i))"
    unfolding mem_sys by (rule register_slot [OF d_sys i_sys])
  have others_swp: "\<forall>key. key \<notin> set swp \<longrightarrow> register (mem (handle_SWP_incoming stod req m)) key = register m key"
    unfolding mem_swp using register_other [OF d_swp] keys_swp by blast
  have others_sys: "\<forall>key. key \<notin> set sys \<longrightarrow> register (mem (handle_SYS_incoming stod req m)) key = register m key"
    unfolding mem_sys using register_other [OF d_sys] keys_sys by blast
  from ok calls at_swp at_sys others_swp others_sys show ?thesis by blast
qed

theorem zero_means_no_op_witness:
  "req_method swp_request = HTTP_POST \<and>
   sint (content_len swp_request) < MAX_DATA_LEN \<and>
   recv_loop (sint (content_len swp_request)) (transport swp_request) [] 0 =
     Received ''TLat1.5_TLong0_TAlt-2_CAlt0_TVel7'' 3 \<and>
   extractValuesAndIds std_stod (c_str ''TLat1.5_TLong0_TAlt-2_CAlt0_TVel7'') [] [] =
     Inr ([''TLat'', ''TLong'', ''TAlt'', ''CAlt'', ''TVel''],
          [Finite 1.5, Finite 0, Finite (- 2), Finite 0, Finite 7]) \<and>
   ret (handle_SWP_incoming std_stod swp_request swp_memory) = Returns ESP_OK \<and>
   store_calls (handle_SWP_incoming std_stod swp_request swp_memory) =
     [Clear ''TLat'', Store_double ''TLat'' (Finite 1.5),
      Clear ''TAlt'', Store_double ''TAlt'' (Finite (- 2)),
      Clear ''TVel'', Store_double ''TVel'' (Finite 7)] \<and>
   register (mem (handle_SWP_incoming std_stod swp_request swp_memory)) ''TLong'' =
     (Some (Finite 9), None, Some ''old'') \<and>
   register (mem (handle_SYS_incoming std_stod swp_request swp_memory)) ''WingFR'' = (None, None, None) \<and>
   register (mem (handle_SWP_incoming std_stod swp_request swp_memory)) ''TAlt'' =
     (Some (Finite (- 2)), None, None) \<and>
   register (mem (handle_SYS_incoming std_stod swp_request swp_memory)) ''WingRL'' =
     (Some (Finite (- 2)), None, None)"
proof -
  have post: "req_method swp_request = HTTP_POST"
    by (simp add: swp_request_def)
  have len: "sint (content_len swp_request) < MAX_DATA_LEN"
    by (simp add: swp_request_def MAX_DATA_LEN_def)
  note z = zero_means_no_op [OF post len swp_request_recv swp_request_decode _ _ refl refl,
      where m = swp_memory]
  have one: "(1::nat) < 5" and two: "(2::nat) < 5"
    by simp_all
  have five: "length [Finite 1.5, Finite 0, Finite (- 2), Finite 0, Finite 7] = 5"
    by simp
  have upt5: "[0..<5] = [0, 1, 2, 3, Suc 3]"
    by (simp add: upt_rec)
  show ?thesis
    using z [OF five one] z [OF five two] post len swp_request_recv swp_request_decode
    by (simp add: upt5 register_def swp_memory_def storeDouble_def storeString_def clearData_def
        empty_memory_def)
qed

text \<open>
  A body that does not decode is outside this: \<open>1e309\<close> is beyond the range of
  \<open>double\<close>, \<open>std::stod\<close> throws \<open>std::out_of_range\<close> on it, and the handler ends
  there with no call on the store.
\<close>

lemma range_error_decode:
  "extractValuesAndIds std_stod (c_str ''A1e309_B0_C0_D0_E0'') [] [] = Inl out_of_range"
  by (simp add: c_str_def NUL_def extract_eval)

lemma range_error_run:
  "ret (handle_SWP_incoming std_stod range_error_request m) = Fault (uncaught out_of_range) \<and>
   store_calls (handle_SWP_incoming std_stod range_error_request m) = []"
proof -
  have "recv_loop (sint (content_len range_error_request)) (transport range_error_request) [] 0 =
      Received ''A1e309_B0_C0_D0_E0'' 1"
    by (simp add: range_error_request_def MAX_DATA_LEN_def)
  then show ?thesis
    using range_error_decode
    by (simp add: handle_SWP_incoming_def range_error_request_def MAX_DATA_LEN_def stopped_def)
qed

subsection \<open>Malformed commands\<close>

lemma short_request_decode:
  "extractValuesAndIds std_stod (c_str ''TLat5'') [] [] = Inr ([''TLat''], [Finite 5])"
  by (simp add: c_str_def NUL_def extract_eval)

text \<open>
  C6 (no bounds check on the decoded sequence). The five-byte body \<open>TLat5\<close> is below the
  cap and decodes to one pair. The SWP, SYS and STATE handlers each go on to
  \<open>values[1]\<close>, past the end of the vector: the run ends in the out-of-range fault. The
  SWP handler has by then already cleared and written \<open>TLat\<close>.
\<close>

theorem malformed_reads_past_end:
  "sint (content_len short_request) < MAX_DATA_LEN \<and>
   recv_loop (sint (content_len short_request)) (transport short_request) [] 0 =
     Received ''TLat5'' 1 \<and>
   extractValuesAndIds std_stod (c_str ''TLat5'') [] [] = Inr ([''TLat''], [Finite 5]) \<and>
   ret (handle_SWP_incoming std_stod short_request empty_memory) = Fault vector_out_of_range \<and>
   ret (handle_SYS_incoming std_stod short_request empty_memory) = Fault vector_out_of_range \<and>
   ret (handle_STATE_incoming std_stod short_request) = Fault vector_out_of_range \<and>
   store_calls (handle_SWP_incoming std_stod short_request empty_memory) =
     [Clear ''TLat'', Store_double ''TLat'' (Finite 5)] \<and>
   register (mem (handle_SWP_incoming std_stod short_request empty_memory)) ''TLat'' =
     (Some (Finite 5), None, None)"
proof -
  have len: "sint (content_len short_request) < MAX_DATA_LEN"
    by (simp add: short_request_def MAX_DATA_LEN_def)
  have recv: "recv_loop (sint (content_len short_request)) (transport short_request) [] 0 =
     Received ''TLat5'' 1"
    by (simp add: short_request_def MAX_DATA_LEN_def)
  have post: "req_method short_request = HTTP_POST"
    by (simp add: short_request_def)
  have swp: "handle_SWP_incoming std_stod short_request empty_memory =
      finish (update_registers [Finite 5]
        [(0, ''TLat''), (1, ''TLong''), (2, ''TAlt''), (3, ''CAlt''), (4, ''TVel'')]) empty_memory 1"
    using len post recv short_request_decode
    by (simp add: handle_SWP_incoming_def vector_at_def)
  have sys: "handle_SYS_incoming std_stod short_request empty_memory =
      finish (update_registers [Finite 5]
        [(0, ''WingFL''), (1, ''WingFR''), (2, ''WingRL''), (3, ''WingRR''), (4, ''THR'')]) empty_memory 1"
    using len post recv short_request_decode
    by (simp add: handle_SYS_incoming_def vector_at_def)
  have state: "ret (handle_STATE_incoming std_stod short_request) = Fault vector_out_of_range"
    using len post recv short_request_decode
    by (simp add: handle_STATE_incoming_def vector_at_def double_to_int_def STATE_tail_def)
  have swp_ret: "ret (handle_SWP_incoming std_stod short_request empty_memory) = Fault vector_out_of_range"
    unfolding swp by (simp add: finish_def update_if_nonzero_def vector_at_def)
  have sys_ret: "ret (handle_SYS_incoming std_stod short_request empty_memory) = Fault vector_out_of_range"
    unfolding sys by (simp add: finish_def update_if_nonzero_def vector_at_def)
  have swp_calls: "store_calls (handle_SWP_incoming std_stod short_request empty_memory) =
     [Clear ''TLat'', Store_double ''TLat'' (Finite 5)]"
    unfolding swp by (simp add: finish_def update_if_nonzero_def vector_at_def)
  have swp_mem: "register (mem (handle_SWP_incoming std_stod short_request empty_memory)) ''TLat'' =
     (Some (Finite 5), None, None)"
    unfolding swp
    by (simp add: finish_def update_if_nonzero_def vector_at_def register_def storeDouble_def
        clearData_def empty_memory_def)
  from len recv short_request_decode swp_ret sys_ret state swp_calls swp_mem show ?thesis
    by blast
qed

subsection \<open>STATE ingestion\<close>

lemma fractional_state_decode:
  "extractValuesAndIds std_stod (c_str ''S1.5_A0_B0_C0_D0'') [] [] =
     Inr ([''S'', ''A'', ''B'', ''C'', ''D''],
          [Finite 1.5, Finite 0, Finite 0, Finite 0, Finite 0])"
  by (simp add: c_str_def NUL_def extract_eval)

lemma armed_state_decode:
  "extractValuesAndIds std_stod (c_str ''S2_A0_B0_C0_D0'') [] [] =
     Inr ([''S'', ''A'', ''B'', ''C'', ''D''],
          [Finite 2, Finite 0, Finite 0, Finite 0, Finite 0])"
  by (simp add: c_str_def NUL_def extract_eval)

lemma handle_STATE_run:
  assumes "req_method req = HTTP_POST" and "sint (content_len req) < MAX_DATA_LEN"
    and "recv_loop (sint (content_len req)) (transport req) [] 0 = Received received_data n"
    and "extractValuesAndIds stod (c_str received_data) [] [] = Inr (ids, v0 # vals)"
  shows "handle_STATE_incoming stod req =
      (if v0 \<noteq> Finite 0 then
         (case double_to_int v0 of
            None \<Rightarrow> state_ran (Fault float_to_int_undefined) [] n []
          | Some code \<Rightarrow>
              STATE_tail (v0 # vals) n
                (if code = 1 then [PREP] else if code = 2 then [ARMED]
                 else if code = 3 then [BYPASS] else []))
       else STATE_tail (v0 # vals) n [])"
  using assms by (simp add: handle_STATE_incoming_def vector_at_def)

text \<open>
  C8, as stated, fails: the body \<open>S1.5_A0_B0_C0_D0\<close> decodes to the first value 1.5, which
  is none of 1, 2 and 3, and the handler calls \<open>updateState(PREP)\<close>, because
  \<open>int(1.5)\<close> is 1.
\<close>

theorem state_dispatch_fractional:
  "extractValuesAndIds std_stod (c_str ''S1.5_A0_B0_C0_D0'') [] [] =
     Inr ([''S'', ''A'', ''B'', ''C'', ''D''],
          [Finite 1.5, Finite 0, Finite 0, Finite 0, Finite 0]) \<and>
   Finite 1.5 \<noteq> Finite 1 \<and> Finite 1.5 \<noteq> Finite 2 \<and> Finite 1.5 \<noteq> Finite 3 \<and>
   ret (handle_STATE_incoming std_stod fractional_state_request) = Returns ESP_OK \<and>
   transitions (handle_STATE_incoming std_stod fractional_state_request) = [PREP]"
proof -
  have "handle_STATE_incoming std_stod fractional_state_request =
      STATE_tail [Finite 1.5, Finite 0, Finite 0, Finite 0, Finite 0] 1 [PREP]"
    using fractional_state_decode
    by (simp add: handle_STATE_incoming_def fractional_state_request_def MAX_DATA_LEN_def
        vector_at_def double_to_int_def)
  then show ?thesis
    using fractional_state_decode by (simp add: STATE_tail_def vector_at_def)
qed

text \<open>
  C8 (amended). For every STATE command whose body is received and decodes to at least one
  value, whatever \<open>std::stod\<close> makes of the texts, the handler itself makes no call on the
  register store and sends nothing. When the first decoded value is 0 it makes no call of
  the state machine. Otherwise it converts the value to \<open>int\<close>, truncating toward zero,
  and calls \<open>updateState\<close> once: with \<open>PREP\<close> when the result is 1, \<open>ARMED\<close> when it
  is 2, \<open>BYPASS\<close> when it is 3, and not at all for any other result. In particular the
  values 1, 2 and 3 themselves give \<open>PREP\<close>, \<open>ARMED\<close> and \<open>BYPASS\<close>. (What
  \<open>updateState\<close> then writes into the store is the state machine's, not represented
  here.)
\<close>

theorem state_dispatch:
  assumes post: "req_method req = HTTP_POST"
    and len: "sint (content_len req) < MAX_DATA_LEN"
    and recv: "recv_loop (sint (content_len req)) (transport req) [] 0 = Received received_data n"
    and dec: "extractValuesAndIds stod (c_str received_data) [] [] = Inr (ids, v0 # vals)"
  shows "store_calls (handle_STATE_incoming stod req) = [] \<and>
         sent (handle_STATE_incoming stod req) = [] \<and>
         (v0 = Finite 0 \<longrightarrow> transitions (handle_STATE_incoming stod req) = []) \<and>
         (v0 \<noteq> Finite 0 \<longrightarrow>
            (\<forall>code. double_to_int v0 = Some code \<longrightarrow>
               transitions (handle_STATE_incoming stod req) =
                 (if code = 1 then [PREP] else if code = 2 then [ARMED]
                  else if code = 3 then [BYPASS] else []))) \<and>
         (v0 = Finite 1 \<longrightarrow> transitions (handle_STATE_incoming stod req) = [PREP]) \<and>
         (v0 = Finite 2 \<longrightarrow> transitions (handle_STATE_incoming stod req) = [ARMED]) \<and>
         (v0 = Finite 3 \<longrightarrow> transitions (handle_STATE_incoming stod req) = [BYPASS])"
proof -
  note run = handle_STATE_run [OF post len recv dec]
  have ints: "double_to_int (Finite 1) = Some 1" "double_to_int (Finite 2) = Some 2"
    "double_to_int (Finite 3) = Some 3"
    by (simp_all add: double_to_int_def)
  have a: "store_calls (handle_STATE_incoming stod req) = []"
    "sent (handle_STATE_incoming stod req) = []"
    unfolding run by (simp_all add: STATE_tail_def split: option.split)
  have b: "v0 = Finite 0 \<longrightarrow> transitions (handle_STATE_incoming stod req) = []"
    unfolding run by (simp add: STATE_tail_def)
  have c: "v0 \<noteq> Finite 0 \<longrightarrow>
            (\<forall>code. double_to_int v0 = Some code \<longrightarrow>
               transitions (handle_STATE_incoming stod req) =
                 (if code = 1 then [PREP] else if code = 2 then [ARMED]
                  else if code = 3 then [BYPASS] else []))"
    unfolding run by (simp add: STATE_tail_def)
  have d: "v0 = Finite 1 \<longrightarrow> transitions (handle_STATE_incoming stod req) = [PREP]"
    "v0 = Finite 2 \<longrightarrow> transitions (handle_STATE_incoming stod req) = [ARMED]"
    "v0 = Finite 3 \<longrightarrow> transitions (handle_STATE_incoming stod req) = [BYPASS]"
    unfolding run by (simp_all add: STATE_tail_def ints)
  from a b c d show ?thesis by blast
qed

theorem state_dispatch_witness:
  "req_method armed_state_request = HTTP_POST \<and>
   sint (content_len armed_state_request) < MAX_DATA_LEN \<and>
   recv_loop (sint (content_len armed_state_request)) (transport armed_state_request) [] 0 =
     Received ''S2_A0_B0_C0_D0'' 1 \<and>
   extractValuesAndIds std_stod (c_str ''S2_A0_B0_C0_D0'') [] [] =
     Inr ([''S'', ''A'', ''B'', ''C'', ''D''],
          [Finite 2, Finite 0, Finite 0, Finite 0, Finite 0]) \<and>
   store_calls (handle_STATE_incoming std_stod armed_state_request) = [] \<and>
   sent (handle_STATE_incoming std_stod armed_state_request) = [] \<and>
   transitions (handle_STATE_incoming std_stod armed_state_request) = [ARMED]"
proof -
  have post: "req_method armed_state_request = HTTP_POST"
    by (simp add: armed_state_request_def)
  have len: "sint (content_len armed_state_request) < MAX_DATA_LEN"
    by (simp add: armed_state_request_def MAX_DATA_LEN_def)
  have recv: "recv_loop (sint (content_len armed_state_request))
      (transport armed_state_request) [] 0 = Received ''S2_A0_B0_C0_D0'' 1"
    by (simp add: armed_state_request_def MAX_DATA_LEN_def)
  show ?thesis
    using state_dispatch [OF post len recv armed_state_decode]
      post len recv armed_state_decode
    by simp
qed

text \<open>
  The conversion rounds: the first value of the body
  \<open>S1.99999999999999999999_A0_B0_C0_D0\<close> is read as 2, and the handler calls
  \<open>updateState(ARMED)\<close>.
\<close>

lemma rounded_state_decode:
  "extractValuesAndIds std_stod (c_str ''S1.99999999999999999999_A0_B0_C0_D0'') [] [] =
     Inr ([''S'', ''A'', ''B'', ''C'', ''D''],
          [Finite 2, Finite 0, Finite 0, Finite 0, Finite 0])"
  by (simp add: c_str_def NUL_def extract_eval)

lemma rounded_state_dispatch:
  "transitions (handle_STATE_incoming std_stod rounded_state_request) = [ARMED]"
proof -
  have post: "req_method rounded_state_request = HTTP_POST"
    by (simp add: rounded_state_request_def)
  have len: "sint (content_len rounded_state_request) < MAX_DATA_LEN"
    by (simp add: rounded_state_request_def MAX_DATA_LEN_def)
  have recv: "recv_loop (sint (content_len rounded_state_request))
      (transport rounded_state_request) [] 0 =
      Received ''S1.99999999999999999999_A0_B0_C0_D0'' 1"
    by (simp add: rounded_state_request_def MAX_DATA_LEN_def)
  show ?thesis
    unfolding handle_STATE_run [OF post len recv rounded_state_decode]
    by (simp add: STATE_tail_def double_to_int_def)
qed

subsection \<open>The AUTH endpoint\<close>

lemma auth_request_recv:
  "recv_loop (sint (content_len auth_request)) (transport auth_request) [] 0 =
     Received ''abc123'' 2"
  by (simp add: auth_request_def MAX_DATA_LEN_def)

lemma wrong_auth_request_recv:
  "recv_loop (sint (content_len wrong_auth_request)) (transport wrong_auth_request) [] 0 =
     Received ''wrong'' 1"
  by (simp add: wrong_auth_request_def MAX_DATA_LEN_def)

lemma auth_memory_token: "getLastString ''arm_token'' auth_memory = ''abc123''"
  by (simp add: auth_memory_def getLastString_def storeString_def storeInt_def empty_memory_def)

lemma auth_match:
  assumes "req_method req = HTTP_POST" and "sint (content_len req) < MAX_DATA_LEN"
    and "recv_loop (sint (content_len req)) (transport req) [] 0 = Received received_data n"
    and "c_str received_data = getLastString ''arm_token'' m"
  shows "handle_AUTH_incoming req m =
      ran (Returns ESP_OK) [Send ''STATE-CHANGE-SUCCESS'']
        [Clear ''state'', Store_double ''state'' (Finite 2),
         Clear ''stateDescript'', Store_string ''stateDescript'' ''ARMED''] m n"
  using assms by (simp add: handle_AUTH_incoming_def)

lemma auth_mismatch:
  assumes "req_method req = HTTP_POST" and "sint (content_len req) < MAX_DATA_LEN"
    and "recv_loop (sint (content_len req)) (transport req) [] 0 = Received received_data n"
    and "c_str received_data \<noteq> getLastString ''arm_token'' m"
  shows "handle_AUTH_incoming req m = ran (Returns ESP_OK) [Send ''STATE-CHANGE-FAIL''] [] m n"
  using assms by (simp add: handle_AUTH_incoming_def)

text \<open>
  C1, as stated, fails: with \<open>abc123\<close> stored under \<open>arm_token\<close>, the nine-byte body
  made of \<open>abc123\<close>, a NUL byte and \<open>xy\<close> is not equal to the stored token, and the
  endpoint answers \<open>STATE-CHANGE-SUCCESS\<close> and arms: the buffer is compared as a C string.
\<close>

theorem auth_nul_accepted:
  "recv_loop (sint (content_len nul_auth_request)) (transport nul_auth_request) [] 0 =
     Received (''abc123'' @ [NUL] @ ''xy'') 1 \<and>
   getLastString ''arm_token'' auth_memory = ''abc123'' \<and>
   ''abc123'' @ [NUL] @ ''xy'' \<noteq> getLastString ''arm_token'' auth_memory \<and>
   sent (handle_AUTH_incoming nul_auth_request auth_memory) = [Send ''STATE-CHANGE-SUCCESS''] \<and>
   store_calls (handle_AUTH_incoming nul_auth_request auth_memory) =
     [Clear ''state'', Store_double ''state'' (Finite 2),
      Clear ''stateDescript'', Store_string ''stateDescript'' ''ARMED''] \<and>
   getLastDouble ''state'' (mem (handle_AUTH_incoming nul_auth_request auth_memory)) = Finite 2"
proof -
  have post: "req_method nul_auth_request = HTTP_POST"
    by (simp add: nul_auth_request_def)
  have len: "sint (content_len nul_auth_request) < MAX_DATA_LEN"
    by (simp add: nul_auth_request_def MAX_DATA_LEN_def)
  have recv: "recv_loop (sint (content_len nul_auth_request)) (transport nul_auth_request) [] 0 =
     Received (''abc123'' @ [NUL] @ ''xy'') 1"
    by (simp add: nul_auth_request_def MAX_DATA_LEN_def)
  have cstr: "c_str (''abc123'' @ [NUL] @ ''xy'') = getLastString ''arm_token'' auth_memory"
    unfolding auth_memory_token by (simp add: c_str_def NUL_def)
  note run = auth_match [OF post len recv cstr]
  have "getLastDouble ''state'' (mem (handle_AUTH_incoming nul_auth_request auth_memory)) = Finite 2"
    unfolding run by (simp add: getLastDouble_def storeString_def clearData_def storeDouble_def)
  moreover have "sent (handle_AUTH_incoming nul_auth_request auth_memory) =
      [Send ''STATE-CHANGE-SUCCESS'']"
    unfolding run by simp
  moreover have "store_calls (handle_AUTH_incoming nul_auth_request auth_memory) =
     [Clear ''state'', Store_double ''state'' (Finite 2),
      Clear ''stateDescript'', Store_string ''stateDescript'' ''ARMED'']"
    unfolding run by simp
  ultimately show ?thesis
    using recv auth_memory_token by simp
qed

text \<open>
  C1 (amended). For every AUTH request whose body is received (its declared length is
  below the cap), on a store that holds a token under \<open>arm_token\<close> (the most recently
  issued token), the endpoint answers \<open>STATE-CHANGE-SUCCESS\<close> if and only if the received
  buffer, read as a C string (its bytes before the first NUL byte), equals that token. On
  a match its calls on the store are \<open>clearData("state")\<close>, \<open>storeDouble("state", 2)\<close>,
  \<open>clearData("stateDescript")\<close>, \<open>storeString("stateDescript", "ARMED")\<close>, which leave
  2 in the double register \<open>state\<close> and \<open>ARMED\<close> in \<open>stateDescript\<close> and touch no
  other key; on a mismatch it answers \<open>STATE-CHANGE-FAIL\<close> and makes no call on the
  store.
\<close>

theorem auth_compare:
  assumes post: "req_method req = HTTP_POST"
    and len: "sint (content_len req) < MAX_DATA_LEN"
    and recv: "recv_loop (sint (content_len req)) (transport req) [] 0 = Received received_data n"
    and issued: "stringData m ''arm_token'' = Some token"
  shows "(sent (handle_AUTH_incoming req m) = [Send ''STATE-CHANGE-SUCCESS''] \<longleftrightarrow>
            c_str received_data = token) \<and>
         (c_str received_data = token \<longrightarrow>
            store_calls (handle_AUTH_incoming req m) =
              [Clear ''state'', Store_double ''state'' (Finite 2),
               Clear ''stateDescript'', Store_string ''stateDescript'' ''ARMED''] \<and>
            getLastDouble ''state'' (mem (handle_AUTH_incoming req m)) = Finite 2 \<and>
            getLastString ''stateDescript'' (mem (handle_AUTH_incoming req m)) = ''ARMED'' \<and>
            (\<forall>key. key \<noteq> ''state'' \<and> key \<noteq> ''stateDescript'' \<longrightarrow>
               register (mem (handle_AUTH_incoming req m)) key = register m key)) \<and>
         (c_str received_data \<noteq> token \<longrightarrow>
            sent (handle_AUTH_incoming req m) = [Send ''STATE-CHANGE-FAIL''] \<and>
            store_calls (handle_AUTH_incoming req m) = [] \<and>
            mem (handle_AUTH_incoming req m) = m)"
proof -
  have saved: "getLastString ''arm_token'' m = token"
    using issued by (simp add: getLastString_def)
  show ?thesis
  proof (cases "c_str received_data = token")
    case True
    then have match: "c_str received_data = getLastString ''arm_token'' m"
      by (simp add: saved)
    note run = auth_match [OF post len recv match]
    have "getLastDouble ''state'' (mem (handle_AUTH_incoming req m)) = Finite 2"
      unfolding run by (simp add: getLastDouble_def storeString_def clearData_def storeDouble_def)
    moreover have "getLastString ''stateDescript'' (mem (handle_AUTH_incoming req m)) = ''ARMED''"
      unfolding run by (simp add: getLastString_def storeString_def)
    moreover have "\<forall>key. key \<noteq> ''state'' \<and> key \<noteq> ''stateDescript'' \<longrightarrow>
        register (mem (handle_AUTH_incoming req m)) key = register m key"
      unfolding run by (simp add: register_def storeString_def clearData_def storeDouble_def)
    moreover have "sent (handle_AUTH_incoming req m) = [Send ''STATE-CHANGE-SUCCESS'']"
      "store_calls (handle_AUTH_incoming req m) =
        [Clear ''state'', Store_double ''state'' (Finite 2),
         Clear ''stateDescript'', Store_string ''stateDescript'' ''ARMED'']"
      unfolding run by simp_all
    ultimately show ?thesis
      using True by simp
  next
    case False
    then have mismatch: "c_str received_data \<noteq> getLastString ''arm_token'' m"
      by (simp add: saved)
    note run = auth_mismatch [OF post len recv mismatch]
    show ?thesis
      unfolding run using False by simp
  qed
qed

text \<open>After a token request that passes the check, the token sent is the token stored.\<close>

lemma issued_token_stored:
  assumes "req_method req = HTTP_POST" and "cfg \<noteq> 0"
  shows "sent (handle_arm_token_request gen cfg seed1 seed2 req m) = [Send (gen seed1 seed2 6)]"
    and "stringData (mem (handle_arm_token_request gen cfg seed1 seed2 req m)) ''arm_token'' =
           Some (gen seed1 seed2 6)"
  using assms by (simp_all add: handle_arm_token_request_def Let_def storeString_def)

lemma issued_memory_token: "stringData issued_memory ''arm_token'' = Some ''k3Xq9Z''"
  unfolding issued_memory_def
  by (subst issued_token_stored(2)) (simp_all add: token_request_def demo_generator_def)

lemma issued_auth_request_recv:
  "recv_loop (sint (content_len issued_auth_request)) (transport issued_auth_request) [] 0 =
     Received ''k3Xq9Z'' 1"
  by (simp add: issued_auth_request_def MAX_DATA_LEN_def)

theorem auth_compare_witness:
  "req_method issued_auth_request = HTTP_POST \<and>
   sint (content_len issued_auth_request) < MAX_DATA_LEN \<and>
   recv_loop (sint (content_len issued_auth_request)) (transport issued_auth_request) [] 0 =
     Received ''k3Xq9Z'' 1 \<and>
   recv_loop (sint (content_len auth_request)) (transport auth_request) [] 0 =
     Received ''abc123'' 2 \<and>
   stringData auth_memory ''arm_token'' = Some ''abc123'' \<and>
   stringData issued_memory ''arm_token'' = Some ''k3Xq9Z'' \<and>
   sent (handle_AUTH_incoming issued_auth_request issued_memory) =
     [Send ''STATE-CHANGE-SUCCESS''] \<and>
   getLastDouble ''state'' (mem (handle_AUTH_incoming issued_auth_request issued_memory)) =
     Finite 2 \<and>
   getLastString ''stateDescript'' (mem (handle_AUTH_incoming issued_auth_request issued_memory)) =
     ''ARMED'' \<and>
   sent (handle_AUTH_incoming auth_request issued_memory) = [Send ''STATE-CHANGE-FAIL''] \<and>
   store_calls (handle_AUTH_incoming auth_request issued_memory) = [] \<and>
   mem (handle_AUTH_incoming auth_request issued_memory) = issued_memory \<and>
   sent (handle_AUTH_incoming wrong_auth_request issued_memory) = [Send ''STATE-CHANGE-FAIL''] \<and>
   mem (handle_AUTH_incoming wrong_auth_request issued_memory) = issued_memory"
proof -
  have post: "req_method issued_auth_request = HTTP_POST" "req_method auth_request = HTTP_POST"
    "req_method wrong_auth_request = HTTP_POST"
    by (simp_all add: issued_auth_request_def auth_request_def wrong_auth_request_def)
  have len: "sint (content_len issued_auth_request) < MAX_DATA_LEN"
    "sint (content_len auth_request) < MAX_DATA_LEN"
    "sint (content_len wrong_auth_request) < MAX_DATA_LEN"
    by (simp_all add: issued_auth_request_def auth_request_def wrong_auth_request_def
        MAX_DATA_LEN_def)
  have cstr: "c_str ''k3Xq9Z'' = ''k3Xq9Z''" "c_str ''abc123'' = ''abc123''"
    "c_str ''wrong'' = ''wrong''"
    by (simp_all add: c_str_def NUL_def)
  have old: "stringData auth_memory ''arm_token'' = Some ''abc123''"
    by (simp add: auth_memory_def storeString_def storeInt_def empty_memory_def)
  show ?thesis
    using auth_compare [OF post(1) len(1) issued_auth_request_recv issued_memory_token]
      auth_compare [OF post(2) len(2) auth_request_recv issued_memory_token]
      auth_compare [OF post(3) len(3) wrong_auth_request_recv issued_memory_token]
      post len issued_auth_request_recv auth_request_recv issued_memory_token old
    by (simp add: cstr)
qed

text \<open>
  C10 (the state code is stored as a double, the logger reads an integer). After every
  successful verification the double register \<open>state\<close> holds 2 and the integer register
  \<open>state\<close> is absent, so that \<open>getLastInt("state")\<close>, which \<open>EVENT_LOG_SDD\<close> calls,
  returns the sentinel 0 and not 2: the logger reports the label \<open>ARMED\<close> with the
  state 0.
\<close>

theorem auth_state_kind:
  assumes post: "req_method req = HTTP_POST"
    and len: "sint (content_len req) < MAX_DATA_LEN"
    and recv: "recv_loop (sint (content_len req)) (transport req) [] 0 = Received received_data n"
    and match: "c_str received_data = getLastString ''arm_token'' m"
  shows "sent (handle_AUTH_incoming req m) = [Send ''STATE-CHANGE-SUCCESS''] \<and>
         getLastDouble ''state'' (mem (handle_AUTH_incoming req m)) = Finite 2 \<and>
         intData (mem (handle_AUTH_incoming req m)) ''state'' = None \<and>
         getLastInt ''state'' (mem (handle_AUTH_incoming req m)) = 0 \<and>
         logged_state (mem (handle_AUTH_incoming req m)) = (''ARMED'', 0)"
  unfolding auth_match [OF post len recv match]
  by (simp add: logged_state_def getLastDouble_def getLastInt_def getLastString_def
      storeString_def clearData_def storeDouble_def)

theorem auth_state_kind_witness:
  "req_method auth_request = HTTP_POST \<and>
   sint (content_len auth_request) < MAX_DATA_LEN \<and>
   recv_loop (sint (content_len auth_request)) (transport auth_request) [] 0 =
     Received ''abc123'' 2 \<and>
   c_str ''abc123'' = getLastString ''arm_token'' empty_armed \<and>
   getLastDouble ''state'' (mem (handle_AUTH_incoming auth_request empty_armed)) = Finite 2 \<and>
   getLastInt ''state'' (mem (handle_AUTH_incoming auth_request empty_armed)) = 0 \<and>
   logged_state (mem (handle_AUTH_incoming auth_request empty_armed)) = (''ARMED'', 0)"
proof -
  have post: "req_method auth_request = HTTP_POST"
    by (simp add: auth_request_def)
  have len: "sint (content_len auth_request) < MAX_DATA_LEN"
    by (simp add: auth_request_def MAX_DATA_LEN_def)
  have match: "c_str ''abc123'' = getLastString ''arm_token'' empty_armed"
    by (simp add: c_str_def NUL_def empty_armed_def getLastString_def storeString_def
        empty_memory_def)
  show ?thesis
    using auth_state_kind [OF post len auth_request_recv match] post len auth_request_recv match
    by simp
qed

subsection \<open>The transition of the AUTH endpoint, as other tasks find it\<close>

lemma auth_request_match: "c_str ''abc123'' = getLastString ''arm_token'' auth_memory"
  by (simp add: c_str_def NUL_def auth_memory_token)

lemma auth_request_calls:
  "store_calls (handle_AUTH_incoming auth_request auth_memory) =
     [Clear ''state'', Store_double ''state'' (Finite 2),
      Clear ''stateDescript'', Store_string ''stateDescript'' ''ARMED'']"
proof -
  have post: "req_method auth_request = HTTP_POST"
    by (simp add: auth_request_def)
  have len: "sint (content_len auth_request) < MAX_DATA_LEN"
    by (simp add: auth_request_def MAX_DATA_LEN_def)
  show ?thesis
    unfolding auth_match [OF post len auth_request_recv auth_request_match] by simp
qed

text \<open>
  C9, as stated, fails: the handler takes no lock across the four calls of its
  transition. On the store \<open>auth_memory\<close> (the integer register \<open>state\<close> holds 1,
  \<open>stateDescript\<close> holds \<open>PREP\<close>) and the request that carries the stored token, the
  stores that a reader can find are five: after the first call no register \<open>state\<close>
  exists; after the second \<open>state\<close> is 2 while \<open>stateDescript\<close> is still \<open>PREP\<close>;
  after the third \<open>stateDescript\<close> is absent.
\<close>

theorem transition_seen_half_done:
  "auth_stores_seen =
     stores_seen (store_calls (handle_AUTH_incoming auth_request auth_memory)) auth_memory \<and>
   length auth_stores_seen = 5 \<and>
   register (auth_stores_seen ! 0) ''state'' = (None, Some 1, None) \<and>
   register (auth_stores_seen ! 0) ''stateDescript'' = (None, None, Some ''PREP'') \<and>
   register (auth_stores_seen ! 1) ''state'' = (None, None, None) \<and>
   getLastDouble ''state'' (auth_stores_seen ! 2) = Finite 2 \<and>
   getLastString ''stateDescript'' (auth_stores_seen ! 2) = ''PREP'' \<and>
   getLastDouble ''state'' (auth_stores_seen ! 3) = Finite 2 \<and>
   register (auth_stores_seen ! 3) ''stateDescript'' = (None, None, None) \<and>
   getLastDouble ''state'' (auth_stores_seen ! 4) = Finite 2 \<and>
   getLastString ''stateDescript'' (auth_stores_seen ! 4) = ''ARMED''"
  unfolding auth_stores_seen_def auth_request_calls
  by (simp add: auth_memory_def register_def getLastDouble_def getLastString_def
      storeString_def storeInt_def storeDouble_def clearData_def empty_memory_def)

text \<open>
  C9 (amended). The transition that \<open>handle_AUTH_incoming\<close> makes when the request
  carries the stored token is not atomic for a reader of the store: it is four calls on
  the store, one after the other, with no lock held across them. The stores that a
  reader can find are, in order: the store as it was; the store with no register
  \<open>state\<close>, \<open>stateDescript\<close> as it was; the store with 2 in the double register
  \<open>state\<close>, \<open>stateDescript\<close> still as it was; the store with \<open>state\<close> 2 and no
  register \<open>stateDescript\<close>; and the store that the handler leaves, with \<open>state\<close> 2
  and \<open>stateDescript\<close> \<open>ARMED\<close>. Only in the last do the two keys hold the new state
  together.
\<close>

theorem transition_stores:
  assumes post: "req_method req = HTTP_POST"
    and len: "sint (content_len req) < MAX_DATA_LEN"
    and recv: "recv_loop (sint (content_len req)) (transport req) [] 0 = Received received_data n"
    and issued: "stringData m ''arm_token'' = Some token"
    and match: "c_str received_data = token"
  shows "(let seen = stores_seen (store_calls (handle_AUTH_incoming req m)) m
          in seen =
               [m, clearData ''state'' m,
                storeDouble ''state'' (Finite 2) (clearData ''state'' m),
                clearData ''stateDescript''
                  (storeDouble ''state'' (Finite 2) (clearData ''state'' m)),
                mem (handle_AUTH_incoming req m)] \<and>
             register (seen ! 1) ''state'' = (None, None, None) \<and>
             register (seen ! 1) ''stateDescript'' = register m ''stateDescript'' \<and>
             register (seen ! 2) ''state'' = (Some (Finite 2), None, None) \<and>
             register (seen ! 2) ''stateDescript'' = register m ''stateDescript'' \<and>
             register (seen ! 3) ''state'' = (Some (Finite 2), None, None) \<and>
             register (seen ! 3) ''stateDescript'' = (None, None, None) \<and>
             register (seen ! 4) ''state'' = (Some (Finite 2), None, None) \<and>
             register (seen ! 4) ''stateDescript'' = (None, None, Some ''ARMED''))"
proof -
  have saved: "c_str received_data = getLastString ''arm_token'' m"
    using issued match by (simp add: getLastString_def)
  show ?thesis
    unfolding auth_match [OF post len recv saved]
    by (simp add: register_def storeString_def storeDouble_def clearData_def)
qed

theorem transition_stores_witness:
  "req_method issued_auth_request = HTTP_POST \<and>
   sint (content_len issued_auth_request) < MAX_DATA_LEN \<and>
   recv_loop (sint (content_len issued_auth_request)) (transport issued_auth_request) [] 0 =
     Received ''k3Xq9Z'' 1 \<and>
   stringData issued_memory ''arm_token'' = Some ''k3Xq9Z'' \<and>
   c_str ''k3Xq9Z'' = ''k3Xq9Z'' \<and>
   length (stores_seen (store_calls (handle_AUTH_incoming issued_auth_request issued_memory))
     issued_memory) = 5 \<and>
   register
     (stores_seen (store_calls (handle_AUTH_incoming issued_auth_request issued_memory))
        issued_memory ! 2) ''state'' = (Some (Finite 2), None, None) \<and>
   register
     (stores_seen (store_calls (handle_AUTH_incoming issued_auth_request issued_memory))
        issued_memory ! 2) ''stateDescript'' = (None, None, Some ''PREP'') \<and>
   register
     (stores_seen (store_calls (handle_AUTH_incoming issued_auth_request issued_memory))
        issued_memory ! 4) ''stateDescript'' = (None, None, Some ''ARMED'')"
proof -
  have post: "req_method issued_auth_request = HTTP_POST"
    by (simp add: issued_auth_request_def)
  have len: "sint (content_len issued_auth_request) < MAX_DATA_LEN"
    by (simp add: issued_auth_request_def MAX_DATA_LEN_def)
  have match: "c_str ''k3Xq9Z'' = ''k3Xq9Z''"
    by (simp add: c_str_def NUL_def)
  have label: "register issued_memory ''stateDescript'' = (None, None, Some ''PREP'')"
    by (simp add: issued_memory_def handle_arm_token_request_def token_request_def
        demo_generator_def Let_def auth_memory_def register_def storeString_def storeInt_def
        clearData_def empty_memory_def)
  let ?seen = "stores_seen (store_calls (handle_AUTH_incoming issued_auth_request issued_memory))
      issued_memory"
  note stores = transition_stores [OF post len issued_auth_request_recv issued_memory_token
      match, unfolded Let_def]
  have "?seen =
      [issued_memory, clearData ''state'' issued_memory,
       storeDouble ''state'' (Finite 2) (clearData ''state'' issued_memory),
       clearData ''stateDescript''
         (storeDouble ''state'' (Finite 2) (clearData ''state'' issued_memory)),
       mem (handle_AUTH_incoming issued_auth_request issued_memory)]"
    using stores by (rule conjunct1)
  then have five: "length ?seen = 5"
    by simp
  have state2: "register (?seen ! 2) ''state'' = (Some (Finite 2), None, None)"
    using stores by blast
  have "register (?seen ! 2) ''stateDescript'' = register issued_memory ''stateDescript''"
    using stores by blast
  then have label2: "register (?seen ! 2) ''stateDescript'' = (None, None, Some ''PREP'')"
    unfolding label .
  have label4: "register (?seen ! 4) ''stateDescript'' = (None, None, Some ''ARMED'')"
    using stores by blast
  from post len issued_auth_request_recv issued_memory_token match five state2 label2 label4
  show ?thesis
    by blast
qed

subsection \<open>Token issuance\<close>

text \<open>
  C7 (token issuance fails closed). For every POST request of the token endpoint: when
  \<open>verifyFlightConfiguration()\<close> returns 0 the handler sends nothing and makes no call on
  the store, so that the \<open>arm_token\<close> register is as it was; when it returns anything
  else the handler asks the generator for a token of length 6 from the two seeds, calls
  \<open>clearData("arm_token")\<close> then \<open>storeString("arm_token", token)\<close> and sends the token,
  and for a generator that keeps its contract the token has six alphanumeric characters.
\<close>

theorem token_fails_closed:
  assumes post: "req_method req = HTTP_POST"
  shows "(cfg = 0 \<longrightarrow>
            ret (handle_arm_token_request gen cfg seed1 seed2 req m) = Returns ESP_OK \<and>
            sent (handle_arm_token_request gen cfg seed1 seed2 req m) = [] \<and>
            store_calls (handle_arm_token_request gen cfg seed1 seed2 req m) = [] \<and>
            mem (handle_arm_token_request gen cfg seed1 seed2 req m) = m) \<and>
         (cfg \<noteq> 0 \<longrightarrow>
            sent (handle_arm_token_request gen cfg seed1 seed2 req m) =
              [Send (gen seed1 seed2 6)] \<and>
            store_calls (handle_arm_token_request gen cfg seed1 seed2 req m) =
              [Clear ''arm_token'', Store_string ''arm_token'' (gen seed1 seed2 6)] \<and>
            mem (handle_arm_token_request gen cfg seed1 seed2 req m) =
              storeString ''arm_token'' (gen seed1 seed2 6) (clearData ''arm_token'' m) \<and>
            getLastString ''arm_token'' (mem (handle_arm_token_request gen cfg seed1 seed2 req m)) =
              gen seed1 seed2 6 \<and>
            (alphanumeric_token gen seed1 seed2 6 \<longrightarrow>
               length (gen seed1 seed2 6) = 6 \<and> list_all isalnum (gen seed1 seed2 6)))"
  using post
  by (simp add: handle_arm_token_request_def Let_def stopped_def getLastString_def
      storeString_def alphanumeric_token_def)

theorem token_fails_closed_witness:
  "req_method token_request = HTTP_POST \<and>
   alphanumeric_token demo_generator 7 11 6 \<and>
   sent (handle_arm_token_request demo_generator 0 7 11 token_request auth_memory) = [] \<and>
   mem (handle_arm_token_request demo_generator 0 7 11 token_request auth_memory) = auth_memory \<and>
   sent (handle_arm_token_request demo_generator 1 7 11 token_request auth_memory) =
     [Send ''k3Xq9Z''] \<and>
   store_calls (handle_arm_token_request demo_generator 1 7 11 token_request auth_memory) =
     [Clear ''arm_token'', Store_string ''arm_token'' ''k3Xq9Z''] \<and>
   getLastString ''arm_token''
     (mem (handle_arm_token_request demo_generator 1 7 11 token_request auth_memory)) =
     ''k3Xq9Z''"
proof -
  have post: "req_method token_request = HTTP_POST"
    by (simp add: token_request_def)
  have gen: "demo_generator 7 11 6 = ''k3Xq9Z''"
    by (simp add: demo_generator_def)
  have contract: "alphanumeric_token demo_generator 7 11 6"
    by (simp add: alphanumeric_token_def gen isalnum_def)
  show ?thesis
    using token_fails_closed [OF post, of 0 demo_generator 7 11 auth_memory]
      token_fails_closed [OF post, of 1 demo_generator 7 11 auth_memory] post contract
    by (simp add: gen getLastString_def storeString_def)
qed

subsection \<open>The byte cap\<close>

lemma oversize_rejected:
  assumes "req_method req = HTTP_POST" and "MAX_DATA_LEN \<le> sint (content_len req)"
  shows "handle_SWP_incoming stod req m = stopped (Returns ESP_FAIL) m 0"
    and "handle_SYS_incoming stod req m = stopped (Returns ESP_FAIL) m 0"
    and "handle_STATE_incoming stod req = state_ran (Returns ESP_FAIL) [] 0 []"
    and "handle_AUTH_incoming req m = stopped (Returns ESP_FAIL) m 0"
  using assms
  by (simp_all add: handle_SWP_incoming_def handle_SYS_incoming_def handle_STATE_incoming_def
      handle_AUTH_incoming_def)

text \<open>
  C3 (oversize rejection), at a failing input. The declared length \<open>0x80000000\<close> is above
  the cap; read as \<open>int\<close> it is negative, so the test \<open>total_len >= MAX_DATA_LEN\<close> does
  not reject and the receive loop is not entered. The SWP handler goes on to decode the
  empty buffer and reads \<open>values[0]\<close> of an empty vector; the AUTH handler compares the
  empty buffer with the stored token, which on a store that holds no token is the empty
  string, answers \<open>STATE-CHANGE-SUCCESS\<close> and writes \<open>state\<close>.
\<close>

theorem oversize_not_rejected:
  "MAX_DATA_LEN \<le> uint (content_len oversize_request) \<and>
   sint (content_len oversize_request) < 0 \<and>
   ret (handle_SWP_incoming stod oversize_request m) = Fault vector_out_of_range \<and>
   ret (handle_SWP_incoming stod oversize_request m) \<noteq> Returns ESP_FAIL \<and>
   sent (handle_AUTH_incoming oversize_request empty_memory) = [Send ''STATE-CHANGE-SUCCESS''] \<and>
   store_calls (handle_AUTH_incoming oversize_request empty_memory) =
     [Clear ''state'', Store_double ''state'' (Finite 2),
      Clear ''stateDescript'', Store_string ''stateDescript'' ''ARMED''] \<and>
   getLastDouble ''state'' (mem (handle_AUTH_incoming oversize_request empty_memory)) = Finite 2 \<and>
   getLastDouble ''state'' empty_memory = Finite 0"
proof -
  have neg: "sint (content_len oversize_request) = - 2147483648"
    by (simp add: oversize_request_def)
  have big: "uint (content_len oversize_request) = 2147483648"
    by (simp add: oversize_request_def)
  have post: "req_method oversize_request = HTTP_POST"
    by (simp add: oversize_request_def)
  have len: "sint (content_len oversize_request) < MAX_DATA_LEN"
    unfolding neg by (simp add: MAX_DATA_LEN_def)
  have recv: "recv_loop (sint (content_len oversize_request)) (transport oversize_request) [] 0 =
      Received [] 0"
    unfolding neg by (simp add: oversize_request_def)
  have decode: "extractValuesAndIds stod (c_str []) [] [] = Inr ([], [])"
    by (simp add: c_str_def extractValuesAndIds_def)
  have swp: "handle_SWP_incoming stod oversize_request m = stopped (Fault vector_out_of_range) m 0"
    using post len recv decode by (simp add: handle_SWP_incoming_def vector_at_def)
  have match: "c_str [] = getLastString ''arm_token'' empty_memory"
    by (simp add: c_str_def getLastString_def empty_memory_def)
  note auth = auth_match [OF post len recv match]
  show ?thesis
    unfolding swp auth neg big
    by (simp add: stopped_def MAX_DATA_LEN_def getLastDouble_def storeString_def clearData_def
        storeDouble_def empty_memory_def)
qed

subsection \<open>Decoding what \<open>packData\<close> packs\<close>

lemma getline_items_until:
  "d \<notin> set s \<Longrightarrow> getline_items d (s @ d # rest) cur = (rev cur @ s) # getline_items d rest []"
  by (induction s arbitrary: cur) auto

lemma getline_items_last:
  "d \<notin> set s \<Longrightarrow> getline_items d s cur = (if rev cur @ s = [] then [] else [rev cur @ s])"
  by (induction s arbitrary: cur) auto

lemma find_first_of_item:
  assumes "list_all (\<lambda>c. c \<notin> set chars) ident" and "t \<noteq> []" and "hd t \<in> set chars"
  shows "find_first_of (ident @ t) chars = Some (length ident)"
proof -
  from assms(2) obtain c cs where t: "t = c # cs" by (cases t) auto
  have "takeWhile (\<lambda>c. c \<notin> set chars) (ident @ t) = ident"
    using assms(1,3) t by (simp add: list_all_iff takeWhile_append2 takeWhile_tail)
  then show ?thesis
    using assms(2) by (simp add: find_first_of_def)
qed

lemma wire_id_cut: "wire_id s \<Longrightarrow> list_all (\<lambda>c. c \<notin> set ''0123456789.-'') s"
  by (induction s) (auto simp: wire_id_def)

lemma wire_id_sep: "wire_id s \<Longrightarrow> CHR ''_'' \<notin> set s"
  by (induction s) (auto simp: wire_id_def)

lemma extract_item:
  assumes "wire_id ident" and "wire_value stod v"
  shows "extract_loop stod ((ident @ float_out v) # rest) ids vals =
           extract_loop stod rest (ids @ [ident]) (vals @ [v])"
proof -
  have "find_first_of (ident @ float_out v) ''0123456789.-'' = Some (length ident)"
    using assms by (intro find_first_of_item wire_id_cut) (simp_all add: wire_value_def)
  moreover have "stod (float_out v) = Inr v"
    using assms(2) by (simp add: wire_value_def)
  ultimately show ?thesis by simp
qed

lemma item_no_sep:
  "wire_id ident \<Longrightarrow> wire_value stod v \<Longrightarrow> CHR ''_'' \<notin> set (ident @ float_out v)"
  using wire_id_sep by (simp add: wire_value_def)

lemma float_out_examples:
  "float_out (Finite 56) = ''56''" "float_out (Finite 78.5) = ''78.5''"
  "float_out (Finite 72.25) = ''72.25''" "float_out (Finite 48.5) = ''48.5''"
  "float_out (Finite 1) = ''1''" "float_out (Finite 2) = ''2''"
  "float_out (Finite 3) = ''3''" "float_out (Finite 4) = ''4''"
  "float_out (Finite 1234567) = ''1.23457e+06''"
  by (simp_all add: float_out_eval)

lemma stod_examples:
  "std_stod ''56'' = Inr (Finite 56)" "std_stod ''78.5'' = Inr (Finite 78.5)"
  "std_stod ''72.25'' = Inr (Finite 72.25)" "std_stod ''48.5'' = Inr (Finite 48.5)"
  by (simp_all add: stod_eval)

lemma decode_example:
  "extractValuesAndIds std_stod ''LAT56_LONG78.5_SAT72.34_ALT48.2'' [] [] =
     Inr ([''LAT'', ''LONG'', ''SAT'', ''ALT''],
          [Finite 56, Finite 78.5, Finite (binary64 72.34), Finite (binary64 48.2)])"
  by (simp add: extract_eval)

lemma decode_separator_in_id:
  "extractValuesAndIds std_stod ''A_B1_C2_D3_E4'' [] [] = Inl out_of_range"
  by (simp add: extract_eval)

lemma decode_seven_digits:
  "extractValuesAndIds std_stod ''LAT1.23457e+06_LONG2_SAT3_ALT4'' [] [] =
     Inr ([''LAT'', ''LONG'', ''SAT'', ''ALT''],
          [Finite 1234570, Finite 2, Finite 3, Finite 4])"
  by (simp add: extract_eval)

text \<open>
  C5, as stated, fails. The identifier \<open>A_B\<close> holds none of the characters
  \<open>0123456789.-\<close>, and decoding what \<open>packData\<close> packs for it throws: the first item is
  \<open>A\<close>, in which \<open>find_first_of\<close> finds nothing. And the value 1234567, which a
  \<open>float\<close> holds exactly, is printed with six significant digits and comes back as
  1234570.
\<close>

theorem decode_packData_fails:
  "list_all (list_all (\<lambda>c. c \<notin> set ''0123456789.-'')) [''A_B'', ''C'', ''D'', ''E''] \<and>
   packData ''A_B'' (Finite 1) ''C'' (Finite 2) ''D'' (Finite 3) ''E'' (Finite 4) =
     ''A_B1_C2_D3_E4'' \<and>
   extractValuesAndIds std_stod
     (packData ''A_B'' (Finite 1) ''C'' (Finite 2) ''D'' (Finite 3) ''E'' (Finite 4)) [] [] =
     Inl out_of_range \<and>
   packData ''LAT'' (Finite 1234567) ''LONG'' (Finite 2) ''SAT'' (Finite 3) ''ALT'' (Finite 4) =
     ''LAT1.23457e+06_LONG2_SAT3_ALT4'' \<and>
   extractValuesAndIds std_stod
     (packData ''LAT'' (Finite 1234567) ''LONG'' (Finite 2) ''SAT'' (Finite 3) ''ALT'' (Finite 4))
     [] [] =
     Inr ([''LAT'', ''LONG'', ''SAT'', ''ALT''],
          [Finite 1234570, Finite 2, Finite 3, Finite 4]) \<and>
   Finite 1234570 \<noteq> Finite 1234567"
proof -
  have p1: "packData ''A_B'' (Finite 1) ''C'' (Finite 2) ''D'' (Finite 3) ''E'' (Finite 4) =
     ''A_B1_C2_D3_E4''"
    unfolding packData_def float_out_examples by simp
  have p2: "packData ''LAT'' (Finite 1234567) ''LONG'' (Finite 2) ''SAT'' (Finite 3) ''ALT''
      (Finite 4) = ''LAT1.23457e+06_LONG2_SAT3_ALT4''"
    unfolding packData_def float_out_examples by simp
  show ?thesis
    unfolding p1 p2 using decode_separator_in_id decode_seven_digits by simp
qed

text \<open>
  C5 (amended). For four identifiers that hold none of the characters \<open>0123456789.-\<close> and
  no separator \<open>_\<close>, and four values each printed by the stream as a text that starts
  with one of \<open>0123456789.-\<close>, holds no separator and is read back by \<open>stod\<close> as the
  same value, decoding the output of \<open>packData\<close> yields the same identifiers and the same
  values, in order. The values 56, 78.5, 72.25 and 48.5, which a \<open>float\<close> holds
  exactly, are such values for \<open>std_stod\<close>; and the text
  \<open>LAT56_LONG78.5_SAT72.34_ALT48.2\<close> decodes to the identifiers \<open>LAT, LONG, SAT, ALT\<close>
  and to the values 56, 78.5, 72.34 and 48.2 as a \<open>double\<close> holds them.
\<close>

theorem decode_packData:
  assumes ids: "list_all wire_id [id1, id2, id3, id4]"
    and vals: "list_all (wire_value stod) [value1, value2, value3, value4]"
  shows "extractValuesAndIds stod (packData id1 value1 id2 value2 id3 value3 id4 value4) [] [] =
           Inr ([id1, id2, id3, id4], [value1, value2, value3, value4])"
proof -
  let ?i1 = "id1 @ float_out value1" and ?i2 = "id2 @ float_out value2"
  let ?i3 = "id3 @ float_out value3" and ?i4 = "id4 @ float_out value4"
  have n1: "CHR ''_'' \<notin> set ?i1" and n2: "CHR ''_'' \<notin> set ?i2"
    and n3: "CHR ''_'' \<notin> set ?i3" and n4: "CHR ''_'' \<notin> set ?i4"
    using ids vals by (simp_all add: wire_id_sep wire_value_def)
  have ne: "?i4 \<noteq> []"
    using vals by (simp add: wire_value_def)
  have pack: "packData id1 value1 id2 value2 id3 value3 id4 value4 =
      ?i1 @ CHR ''_'' # ?i2 @ CHR ''_'' # ?i3 @ CHR ''_'' # ?i4"
    by (simp add: packData_def)
  have "getline_items CHR ''_'' (?i1 @ CHR ''_'' # ?i2 @ CHR ''_'' # ?i3 @ CHR ''_'' # ?i4) [] =
      [?i1, ?i2, ?i3, ?i4]"
    using ne
    by (simp only: getline_items_until [OF n1] getline_items_until [OF n2]
        getline_items_until [OF n3] getline_items_last [OF n4]) simp
  then have "extractValuesAndIds stod (packData id1 value1 id2 value2 id3 value3 id4 value4) [] [] =
      extract_loop stod [?i1, ?i2, ?i3, ?i4] [] []"
    unfolding pack extractValuesAndIds_def by simp
  also have "\<dots> = Inr ([id1, id2, id3, id4], [value1, value2, value3, value4])"
    using ids vals by (simp add: extract_item del: extract_loop.simps(2))
  finally show ?thesis .
qed

theorem decode_packData_witness:
  "list_all wire_id [''LAT'', ''LONG'', ''SAT'', ''ALT''] \<and>
   list_all (wire_value std_stod) [Finite 56, Finite 78.5, Finite 72.25, Finite 48.5] \<and>
   packData ''LAT'' (Finite 56) ''LONG'' (Finite 78.5) ''SAT'' (Finite 72.25) ''ALT'' (Finite 48.5) =
     ''LAT56_LONG78.5_SAT72.25_ALT48.5'' \<and>
   extractValuesAndIds std_stod ''LAT56_LONG78.5_SAT72.25_ALT48.5'' [] [] =
     Inr ([''LAT'', ''LONG'', ''SAT'', ''ALT''],
          [Finite 56, Finite 78.5, Finite 72.25, Finite 48.5]) \<and>
   extractValuesAndIds std_stod ''LAT56_LONG78.5_SAT72.34_ALT48.2'' [] [] =
     Inr ([''LAT'', ''LONG'', ''SAT'', ''ALT''],
          [Finite 56, Finite 78.5, Finite (binary64 72.34), Finite (binary64 48.2)])"
proof -
  have ids: "list_all wire_id [''LAT'', ''LONG'', ''SAT'', ''ALT'']"
    by (simp add: wire_id_def)
  have v: "wire_value std_stod (Finite 56)" "wire_value std_stod (Finite 78.5)"
    "wire_value std_stod (Finite 72.25)" "wire_value std_stod (Finite 48.5)"
    unfolding wire_value_def float_out_examples stod_examples by simp_all
  have vals: "list_all (wire_value std_stod) [Finite 56, Finite 78.5, Finite 72.25, Finite 48.5]"
    using v by simp
  have pack: "packData ''LAT'' (Finite 56) ''LONG'' (Finite 78.5) ''SAT'' (Finite 72.25) ''ALT''
      (Finite 48.5) = ''LAT56_LONG78.5_SAT72.25_ALT48.5''"
    unfolding packData_def float_out_examples by simp
  show ?thesis
    using decode_packData [OF ids vals] ids vals pack decode_example by simp
qed

subsection \<open>The deprecated array store\<close>

lemma scan_floatingP_numeral:
  "scan_floatingP arr baseID (numeral k) =
     (if numeral k < length arr then
        (if arr ! numeral k = baseID then Inr (Some (numeral k))
         else if 256 \<le> (numeral k :: nat) + 2 then Inl never_returns
         else scan_floatingP arr baseID (numeral k + 2))
      else Inr None)"
  by (rule scan_floatingP.simps)

lemma scan_floatingP_zero:
  "scan_floatingP arr baseID 0 =
     (if 0 < length arr then
        (if arr ! 0 = baseID then Inr (Some 0) else scan_floatingP arr baseID 2)
      else Inr None)"
  by (subst scan_floatingP.simps) (simp add: numeral_2_eq_2)

lemmas ptam_eval =
  add_then_retrieve_def PTAM_ADD_BASE_DOUBLE_def PTAM_RETRIEVE_BASE_DOUBLE_def
  ptam_fresh_def ptam_second_def double_to_int_def itoa_def atoi_def isspace_def isdigit_def
  digits_val_def digit_val_def dec_digits_numeral dec_digits_small scan_floatingP_numeral
  scan_floatingP_zero Let_def

text \<open>
  C2 (round trip of the array store), at failing inputs. On the store as the program
  starts, adding the value 1.5 under the key at address 100 computes the indices -2 and
  -1 and writes outside the array. With the counter at 2 the entry goes to the indices 0
  and 1; retrieving with the same pointer then returns 1, not 1.5 (\<open>itoa\<close> stored the
  integer part); retrieving with the pointer 101 to an equal key text finds nothing, since
  the scan compares pointers, and reads through the unassigned \<open>temp_data\<close>; and when the
  uninitialised \<open>converted\<close> points to no buffer, \<open>itoa\<close> writes through a wild
  pointer.
\<close>

theorem ptam_round_trip_fails:
  "strings ptam_fresh 100 = strings ptam_fresh 101 \<and>
   add_then_retrieve 100 (Finite 1.5) 300 100 ptam_fresh = Inl array_out_of_bounds \<and>
   add_then_retrieve 100 (Finite 1.5) 300 100 ptam_second = Inr (Finite 1) \<and>
   add_then_retrieve 100 (Finite 1.5) 300 101 ptam_second = Inl wild_pointer_read \<and>
   add_then_retrieve 100 (Finite 1.5) 7 100 ptam_second = Inl wild_pointer_write"
  by (simp add: ptam_eval)

end
